theory Spec2Isabelle
  imports Complex_Main
begin

section \<open>The beam model of dxtbx (src/dxtbx/model/beam.h)\<close>

text \<open>
  A shallow embedding of the classes \<^verbatim>\<open>Beam\<close> and \<^verbatim>\<open>PolychromaticBeam\<close>.
  An exception is a value \<open>Inl e\<close> of the result type \<open>error + 'a\<close>; a member
  function that cannot throw in either class returns its plain value.

  A C++ \<^verbatim>\<open>double\<close> is modelled as an ideal real number: rounding, overflow,
  underflow, infinities and NaN are outside the model. The length of a vector is
  therefore exact here, whereas the length the program computes overflows to
  infinity for a component above about 1.3e154 and underflows to zero for a nonzero
  vector with components below about 1.5e-162. The properties of the setters and of
  the wavelength are for that reason stated through the test \<^verbatim>\<open>length() > 0\<close> that
  the code itself makes and through the quotient \<^verbatim>\<open>v / v.length()\<close> that it stores,
  and use no fact about the exact square root.
\<close>

subsection \<open>The 3-vector type of the vector library (scitbx::vec3)\<close>

datatype vec3 = vec3 (vx: real) (vy: real) (vz: real)

definition length_vec3 :: "vec3 \<Rightarrow> real" where
  "length_vec3 v = sqrt (vx v * vx v + vy v * vy v + vz v * vz v)"

definition div_vec3 :: "vec3 \<Rightarrow> real \<Rightarrow> vec3" where
  "div_vec3 v s = vec3 (vx v / s) (vy v / s) (vz v / s)"

definition mul_vec3 :: "vec3 \<Rightarrow> real \<Rightarrow> vec3" where
  "mul_vec3 v s = vec3 (vx v * s) (vy v * s) (vz v * s)"

definition neg_vec3 :: "vec3 \<Rightarrow> vec3" where
  "neg_vec3 v = vec3 (- vx v) (- vy v) (- vz v)"

definition add_vec3 :: "vec3 \<Rightarrow> vec3 \<Rightarrow> vec3" where
  "add_vec3 a b = vec3 (vx a + vx b) (vy a + vy b) (vz a + vz b)"

definition dot_vec3 :: "vec3 \<Rightarrow> vec3 \<Rightarrow> real" where
  "dot_vec3 a b = vx a * vx b + vy a * vy b + vz a * vz b"

definition cross_vec3 :: "vec3 \<Rightarrow> vec3 \<Rightarrow> vec3" where
  "cross_vec3 a b =
     vec3 (vy a * vz b - vy b * vz a) (vz a * vx b - vz b * vx a) (vx a * vy b - vx b * vy a)"

text \<open>\<^verbatim>\<open>v.normalize()\<close> is \<^verbatim>\<open>v / v.length()\<close>. Every caller in beam.h that stores
  the result first asserts that the length is positive. On the zero vector the
  quotient is the zero vector here and NaN in the program; that case is reached only
  inside the comparisons.\<close>

definition normalize_vec3 :: "vec3 \<Rightarrow> vec3" where
  "normalize_vec3 v = div_vec3 v (length_vec3 v)"

text \<open>The rotation of the vector library, by Rodrigues' formula about the unit
  form of the axis.\<close>

definition unit_rotate_around_origin :: "vec3 \<Rightarrow> vec3 \<Rightarrow> real \<Rightarrow> vec3" where
  "unit_rotate_around_origin v unit_axis angle =
     add_vec3
       (add_vec3 (mul_vec3 v (cos angle))
                 (mul_vec3 unit_axis (dot_vec3 unit_axis v * (1 - cos angle))))
       (mul_vec3 (cross_vec3 unit_axis v) (sin angle))"

definition rotate_around_origin_vec3 :: "vec3 \<Rightarrow> vec3 \<Rightarrow> real \<Rightarrow> vec3" where
  "rotate_around_origin_vec3 v axis angle =
     unit_rotate_around_origin v (normalize_vec3 axis) angle"

text \<open>Modelled from the spec: \<^verbatim>\<open>angle_safe\<close> lives in model_helpers.h, which is not
  among the sources. The specification says that it normalizes both inputs, clamps
  the dot product of the normalized vectors to [-1, 1] and takes the inverse cosine.\<close>

definition angle_safe :: "vec3 \<Rightarrow> vec3 \<Rightarrow> real" where
  "angle_safe a b =
     arccos (max (- 1) (min 1 (dot_vec3 (normalize_vec3 a) (normalize_vec3 b))))"

subsection \<open>Errors, probes and the beam object\<close>

text \<open>\<^verbatim>\<open>DXTBX_ASSERT(c)\<close> throws with the text of the failed condition,
  \<^verbatim>\<open>DXTBX_ERROR(msg)\<close> throws with the message.\<close>

datatype error = DXTBX_ASSERT string | DXTBX_ERROR string

definition invalid_argument :: "error \<Rightarrow> bool" where
  "invalid_argument e = (case e of DXTBX_ASSERT c \<Rightarrow> True | DXTBX_ERROR m \<Rightarrow> False)"

definition unsupported_operation :: "error \<Rightarrow> bool" where
  "unsupported_operation e =
     (e = DXTBX_ERROR ''PolychromaticBeam has no fixed wavelength''
      \<or> e = DXTBX_ERROR ''PolychromaticBeam has no fixed s0'')"

datatype Probe = xray | electron | neutron

text \<open>The dynamic class of a beam object: \<^verbatim>\<open>Beam\<close> (monochromatic) or its subclass
  \<^verbatim>\<open>PolychromaticBeam\<close>, which inherits every data member.\<close>

datatype variant = Monochromatic | Polychromatic

record beam =
  variant :: variant
  direction :: vec3
  divergence :: real
  sigma_divergence :: real
  polarization_normal :: vec3
  polarization_fraction :: real
  flux :: real
  transmission :: real
  probe :: Probe
  sample_to_source_distance :: real
  wavelength :: real
  s0_at_scan_points :: "vec3 list"

definition eps :: real where
  "eps = 1 / 1000000"

subsection \<open>Constructors of Beam\<close>

definition Beam_default :: beam where
  "Beam_default =
     \<lparr>variant = Monochromatic, direction = vec3 0 0 1, divergence = 0,
      sigma_divergence = 0, polarization_normal = vec3 0 1 0,
      polarization_fraction = 0.999, flux = 0, transmission = 1, probe = xray,
      sample_to_source_distance = 0, wavelength = 0, s0_at_scan_points = []\<rparr>"

definition Beam_s0 :: "vec3 \<Rightarrow> error + beam" where
  "Beam_s0 s0 =
     (if length_vec3 s0 > 0 then
        Inr \<lparr>variant = Monochromatic, direction = neg_vec3 (normalize_vec3 s0),
             divergence = 0, sigma_divergence = 0, polarization_normal = vec3 0 1 0,
             polarization_fraction = 0.999, flux = 0, transmission = 1, probe = xray,
             sample_to_source_distance = 0, wavelength = 1 / length_vec3 s0,
             s0_at_scan_points = []\<rparr>
      else Inl (DXTBX_ASSERT ''s0.length() > 0''))"

definition Beam_direction_wavelength :: "vec3 \<Rightarrow> real \<Rightarrow> error + beam" where
  "Beam_direction_wavelength dir wl =
     (if length_vec3 dir > 0 then
        Inr \<lparr>variant = Monochromatic, direction = normalize_vec3 dir,
             divergence = 0, sigma_divergence = 0, polarization_normal = vec3 0 1 0,
             polarization_fraction = 0.999, flux = 0, transmission = 1, probe = xray,
             sample_to_source_distance = 0, wavelength = wl, s0_at_scan_points = []\<rparr>
      else Inl (DXTBX_ASSERT ''direction.length() > 0''))"

definition Beam_s0_divergence :: "vec3 \<Rightarrow> real \<Rightarrow> real \<Rightarrow> error + beam" where
  "Beam_s0_divergence s0 dv sdv =
     (if length_vec3 s0 > 0 then
        Inr \<lparr>variant = Monochromatic, direction = neg_vec3 (normalize_vec3 s0),
             divergence = dv, sigma_divergence = sdv, polarization_normal = vec3 0 1 0,
             polarization_fraction = 0.999, flux = 0, transmission = 1, probe = xray,
             sample_to_source_distance = 0, wavelength = 1 / length_vec3 s0,
             s0_at_scan_points = []\<rparr>
      else Inl (DXTBX_ASSERT ''s0.length() > 0''))"

definition Beam_direction_wavelength_divergence ::
  "vec3 \<Rightarrow> real \<Rightarrow> real \<Rightarrow> real \<Rightarrow> error + beam" where
  "Beam_direction_wavelength_divergence dir wl dv sdv =
     (if length_vec3 dir > 0 then
        Inr \<lparr>variant = Monochromatic, direction = normalize_vec3 dir,
             divergence = dv, sigma_divergence = sdv, polarization_normal = vec3 0 1 0,
             polarization_fraction = 0.999, flux = 0, transmission = 1, probe = xray,
             sample_to_source_distance = 0, wavelength = wl, s0_at_scan_points = []\<rparr>
      else Inl (DXTBX_ASSERT ''direction.length() > 0''))"

definition Beam_all_but_distance ::
  "vec3 \<Rightarrow> real \<Rightarrow> real \<Rightarrow> real \<Rightarrow> vec3 \<Rightarrow> real \<Rightarrow> real \<Rightarrow> real \<Rightarrow> Probe \<Rightarrow> error + beam" where
  "Beam_all_but_distance dir wl dv sdv pn pf fl tr pr =
     (if length_vec3 dir > 0 then
        Inr \<lparr>variant = Monochromatic, direction = normalize_vec3 dir,
             divergence = dv, sigma_divergence = sdv, polarization_normal = pn,
             polarization_fraction = pf, flux = fl, transmission = tr, probe = pr,
             sample_to_source_distance = 0, wavelength = wl, s0_at_scan_points = []\<rparr>
      else Inl (DXTBX_ASSERT ''direction.length() > 0''))"

definition Beam_all ::
  "vec3 \<Rightarrow> real \<Rightarrow> real \<Rightarrow> real \<Rightarrow> vec3 \<Rightarrow> real \<Rightarrow> real \<Rightarrow> real \<Rightarrow> Probe \<Rightarrow> real
     \<Rightarrow> error + beam" where
  "Beam_all dir wl dv sdv pn pf fl tr pr dst =
     (if length_vec3 dir > 0 then
        Inr \<lparr>variant = Monochromatic, direction = normalize_vec3 dir,
             divergence = dv, sigma_divergence = sdv, polarization_normal = pn,
             polarization_fraction = pf, flux = fl, transmission = tr, probe = pr,
             sample_to_source_distance = dst, wavelength = wl,
             s0_at_scan_points = []\<rparr>
      else Inl (DXTBX_ASSERT ''direction.length() > 0''))"

subsection \<open>Getters\<close>

definition get_sample_to_source_direction :: "beam \<Rightarrow> vec3" where
  "get_sample_to_source_direction b = direction b"

definition get_wavelength :: "beam \<Rightarrow> error + real" where
  "get_wavelength b =
     (case variant b of
        Monochromatic \<Rightarrow> Inr (wavelength b)
      | Polychromatic \<Rightarrow> Inl (DXTBX_ERROR ''PolychromaticBeam has no fixed wavelength''))"

definition get_divergence :: "beam \<Rightarrow> real" where
  "get_divergence b = divergence b"

definition get_sigma_divergence :: "beam \<Rightarrow> real" where
  "get_sigma_divergence b = sigma_divergence b"

definition get_s0 :: "beam \<Rightarrow> error + vec3" where
  "get_s0 b =
     (case variant b of
        Monochromatic \<Rightarrow>
          (if wavelength b \<noteq> 0
           then Inr (div_vec3 (mul_vec3 (neg_vec3 (direction b)) 1) (wavelength b))
           else Inl (DXTBX_ASSERT ''wavelength_ != 0.0''))
      | Polychromatic \<Rightarrow> Inl (DXTBX_ERROR ''PolychromaticBeam has no fixed s0''))"

definition get_unit_s0 :: "beam \<Rightarrow> vec3" where
  "get_unit_s0 b = neg_vec3 (direction b)"

definition get_polarization_normal :: "beam \<Rightarrow> vec3" where
  "get_polarization_normal b = polarization_normal b"

definition get_polarization_fraction :: "beam \<Rightarrow> real" where
  "get_polarization_fraction b = polarization_fraction b"

definition get_flux :: "beam \<Rightarrow> real" where
  "get_flux b = flux b"

definition get_transmission :: "beam \<Rightarrow> real" where
  "get_transmission b = transmission b"

definition get_num_scan_points :: "beam \<Rightarrow> error + nat" where
  "get_num_scan_points b =
     (case variant b of
        Monochromatic \<Rightarrow> Inr (length (s0_at_scan_points b))
      | Polychromatic \<Rightarrow> Inl (DXTBX_ERROR ''PolychromaticBeam has no fixed s0''))"

definition get_s0_at_scan_points :: "beam \<Rightarrow> error + vec3 list" where
  "get_s0_at_scan_points b =
     (case variant b of
        Monochromatic \<Rightarrow> Inr (s0_at_scan_points b)
      | Polychromatic \<Rightarrow> Inl (DXTBX_ERROR ''PolychromaticBeam has no fixed s0''))"

definition get_s0_at_scan_point :: "beam \<Rightarrow> nat \<Rightarrow> error + vec3" where
  "get_s0_at_scan_point b index =
     (case variant b of
        Monochromatic \<Rightarrow>
          (if index < length (s0_at_scan_points b)
           then Inr (s0_at_scan_points b ! index)
           else Inl (DXTBX_ASSERT ''index < s0_at_scan_points_.size()''))
      | Polychromatic \<Rightarrow> Inl (DXTBX_ERROR ''PolychromaticBeam has no fixed s0''))"

definition get_probe :: "beam \<Rightarrow> Probe" where
  "get_probe b = probe b"

definition get_probe_name :: "beam \<Rightarrow> string" where
  "get_probe_name b =
     (case probe b of xray \<Rightarrow> ''x-ray'' | electron \<Rightarrow> ''electron'' | neutron \<Rightarrow> ''neutron'')"

definition get_probe_from_name :: "string \<Rightarrow> error + Probe" where
  "get_probe_from_name name =
     (if name = ''x-ray'' then Inr xray
      else if name = ''electron'' then Inr electron
      else if name = ''neutron'' then Inr neutron
      else Inl (DXTBX_ERROR (''Unknown probe '' @ name)))"

definition get_sample_to_source_distance :: "beam \<Rightarrow> real" where
  "get_sample_to_source_distance b = sample_to_source_distance b"

subsection \<open>Setters\<close>

definition set_direction :: "beam \<Rightarrow> vec3 \<Rightarrow> error + beam" where
  "set_direction b dir =
     (if length_vec3 dir > 0 then Inr (b\<lparr>direction := normalize_vec3 dir\<rparr>)
      else Inl (DXTBX_ASSERT ''direction.length() > 0''))"

definition set_wavelength :: "beam \<Rightarrow> real \<Rightarrow> error + beam" where
  "set_wavelength b wl =
     (case variant b of
        Monochromatic \<Rightarrow> Inr (b\<lparr>wavelength := wl\<rparr>)
      | Polychromatic \<Rightarrow> Inl (DXTBX_ERROR ''PolychromaticBeam has no fixed wavelength''))"

definition set_s0 :: "beam \<Rightarrow> vec3 \<Rightarrow> error + beam" where
  "set_s0 b s0 =
     (case variant b of
        Monochromatic \<Rightarrow>
          (if length_vec3 s0 > 0
           then Inr (b\<lparr>direction := neg_vec3 (normalize_vec3 s0),
                       wavelength := 1 / length_vec3 s0\<rparr>)
           else Inl (DXTBX_ASSERT ''s0.length() > 0''))
      | Polychromatic \<Rightarrow> Inl (DXTBX_ERROR ''PolychromaticBeam has no fixed s0''))"

definition set_unit_s0 :: "beam \<Rightarrow> vec3 \<Rightarrow> error + beam" where
  "set_unit_s0 b unit_s0 =
     (if length_vec3 unit_s0 > 0
      then Inr (b\<lparr>direction := neg_vec3 (normalize_vec3 unit_s0)\<rparr>)
      else Inl (DXTBX_ASSERT ''unit_s0.length() > 0''))"

definition set_divergence :: "beam \<Rightarrow> real \<Rightarrow> beam" where
  "set_divergence b dv = b\<lparr>divergence := dv\<rparr>"

definition set_sigma_divergence :: "beam \<Rightarrow> real \<Rightarrow> beam" where
  "set_sigma_divergence b sdv = b\<lparr>sigma_divergence := sdv\<rparr>"

definition set_polarization_normal :: "beam \<Rightarrow> vec3 \<Rightarrow> beam" where
  "set_polarization_normal b pn = b\<lparr>polarization_normal := pn\<rparr>"

definition set_polarization_fraction :: "beam \<Rightarrow> real \<Rightarrow> beam" where
  "set_polarization_fraction b pf = b\<lparr>polarization_fraction := pf\<rparr>"

definition set_flux :: "beam \<Rightarrow> real \<Rightarrow> beam" where
  "set_flux b fl = b\<lparr>flux := fl\<rparr>"

definition set_transmission :: "beam \<Rightarrow> real \<Rightarrow> beam" where
  "set_transmission b tr = b\<lparr>transmission := tr\<rparr>"

definition set_s0_at_scan_points :: "beam \<Rightarrow> vec3 list \<Rightarrow> error + beam" where
  "set_s0_at_scan_points b s0 =
     (case variant b of
        Monochromatic \<Rightarrow> Inr (b\<lparr>s0_at_scan_points := s0\<rparr>)
      | Polychromatic \<Rightarrow> Inl (DXTBX_ERROR ''PolychromaticBeam has no fixed s0''))"

definition set_probe :: "beam \<Rightarrow> Probe \<Rightarrow> beam" where
  "set_probe b pr = b\<lparr>probe := pr\<rparr>"

definition reset_scan_points :: "beam \<Rightarrow> error + beam" where
  "reset_scan_points b =
     (case variant b of
        Monochromatic \<Rightarrow> Inr (b\<lparr>s0_at_scan_points := []\<rparr>)
      | Polychromatic \<Rightarrow> Inl (DXTBX_ERROR ''PolychromaticBeam has no fixed s0''))"

definition set_sample_to_source_distance :: "beam \<Rightarrow> real \<Rightarrow> error + beam" where
  "set_sample_to_source_distance b dst =
     (if dst \<ge> 0 then Inr (b\<lparr>sample_to_source_distance := dst\<rparr>)
      else Inl (DXTBX_ASSERT ''sample_to_source_distance >= 0.''))"

definition rotate_around_origin :: "beam \<Rightarrow> vec3 \<Rightarrow> real \<Rightarrow> beam" where
  "rotate_around_origin b axis angle =
     b\<lparr>direction := rotate_around_origin_vec3 (direction b) axis angle,
       polarization_normal := rotate_around_origin_vec3 (polarization_normal b) axis angle\<rparr>"

subsection \<open>Constructors of PolychromaticBeam\<close>

text \<open>Each constructor first runs the default constructor of the base class
  \<^verbatim>\<open>Beam\<close> and then its own body, a sequence of setter calls. The private members
  \<^verbatim>\<open>wavelength_\<close> and \<^verbatim>\<open>s0_at_scan_points_\<close> keep the base class defaults.\<close>

definition PolychromaticBeam_base :: beam where
  "PolychromaticBeam_base = Beam_default\<lparr>variant := Polychromatic\<rparr>"

definition PolychromaticBeam_default :: "error + beam" where
  "PolychromaticBeam_default =
     (case set_direction PolychromaticBeam_base (vec3 0 0 1) of
        Inl e \<Rightarrow> Inl e
      | Inr b0 \<Rightarrow>
          (let b1 = set_divergence b0 0;
               b2 = set_sigma_divergence b1 0;
               b3 = set_polarization_normal b2 (vec3 0 1 0);
               b4 = set_polarization_fraction b3 0.5;
               b5 = set_flux b4 0;
               b6 = set_transmission b5 1;
               b7 = set_probe b6 xray
           in set_sample_to_source_distance b7 0))"

definition PolychromaticBeam_direction :: "vec3 \<Rightarrow> error + beam" where
  "PolychromaticBeam_direction dir =
     (if length_vec3 dir > 0 then
        (let b0 = PolychromaticBeam_base\<lparr>direction := normalize_vec3 dir\<rparr>;
             b1 = set_divergence b0 0;
             b2 = set_sigma_divergence b1 0;
             b3 = set_polarization_normal b2 (vec3 0 1 0);
             b4 = set_polarization_fraction b3 0.5;
             b5 = set_flux b4 0;
             b6 = set_transmission b5 1;
             b7 = set_probe b6 xray
         in set_sample_to_source_distance b7 0)
      else Inl (DXTBX_ASSERT ''direction.length() > 0''))"

definition PolychromaticBeam_direction_distance :: "vec3 \<Rightarrow> real \<Rightarrow> error + beam" where
  "PolychromaticBeam_direction_distance dir dst =
     (if length_vec3 dir > 0 then
        (case set_sample_to_source_distance
                (PolychromaticBeam_base\<lparr>direction := normalize_vec3 dir\<rparr>) dst of
           Inl e \<Rightarrow> Inl e
         | Inr b0 \<Rightarrow>
             (let b1 = set_divergence b0 0;
                  b2 = set_sigma_divergence b1 0;
                  b3 = set_polarization_normal b2 (vec3 0 1 0);
                  b4 = set_polarization_fraction b3 0.999;
                  b5 = set_flux b4 0;
                  b6 = set_transmission b5 1
              in Inr (set_probe b6 xray)))
      else Inl (DXTBX_ASSERT ''direction.length() > 0''))"

definition PolychromaticBeam_direction_divergence ::
  "vec3 \<Rightarrow> real \<Rightarrow> real \<Rightarrow> error + beam" where
  "PolychromaticBeam_direction_divergence dir dv sdv =
     (if length_vec3 dir > 0 then
        (let b0 = PolychromaticBeam_base\<lparr>direction := normalize_vec3 dir\<rparr>;
             b1 = set_divergence b0 dv;
             b2 = set_sigma_divergence b1 sdv;
             b3 = set_polarization_normal b2 (vec3 0 1 0);
             b4 = set_polarization_fraction b3 0.5;
             b5 = set_flux b4 0;
             b6 = set_transmission b5 1;
             b7 = set_probe b6 xray
         in set_sample_to_source_distance b7 0)
      else Inl (DXTBX_ASSERT ''direction.length() > 0''))"

definition PolychromaticBeam_all_but_distance ::
  "vec3 \<Rightarrow> real \<Rightarrow> real \<Rightarrow> vec3 \<Rightarrow> real \<Rightarrow> real \<Rightarrow> real \<Rightarrow> Probe \<Rightarrow> error + beam" where
  "PolychromaticBeam_all_but_distance dir dv sdv pn pf fl tr pr =
     (if length_vec3 dir > 0 then
        (let b0 = PolychromaticBeam_base\<lparr>direction := normalize_vec3 dir\<rparr>;
             b1 = set_divergence b0 dv;
             b2 = set_sigma_divergence b1 sdv;
             b3 = set_polarization_normal b2 pn;
             b4 = set_polarization_fraction b3 pf;
             b5 = set_flux b4 fl;
             b6 = set_transmission b5 tr;
             b7 = set_probe b6 pr
         in set_sample_to_source_distance b7 0)
      else Inl (DXTBX_ASSERT ''direction.length() > 0''))"

definition PolychromaticBeam_all ::
  "vec3 \<Rightarrow> real \<Rightarrow> real \<Rightarrow> vec3 \<Rightarrow> real \<Rightarrow> real \<Rightarrow> real \<Rightarrow> Probe \<Rightarrow> real \<Rightarrow> error + beam" where
  "PolychromaticBeam_all dir dv sdv pn pf fl tr pr dst =
     (if length_vec3 dir > 0 then
        (let b0 = PolychromaticBeam_base\<lparr>direction := normalize_vec3 dir\<rparr>;
             b1 = set_divergence b0 dv;
             b2 = set_sigma_divergence b1 sdv;
             b3 = set_polarization_normal b2 pn;
             b4 = set_polarization_fraction b3 pf;
             b5 = set_flux b4 fl;
             b6 = set_transmission b5 tr;
             b7 = set_probe b6 pr
         in set_sample_to_source_distance b7 dst)
      else Inl (DXTBX_ASSERT ''direction.length() > 0''))"

subsection \<open>Strict equality\<close>

text \<open>The inner loop of \<^verbatim>\<open>Beam::operator==\<close>: the sum over the three axes of the
  absolute differences.\<close>

definition d_s0 :: "vec3 \<Rightarrow> vec3 \<Rightarrow> real" where
  "d_s0 this_s0 other_s0 =
     0 + abs (vx this_s0 - vx other_s0) + abs (vy this_s0 - vy other_s0)
       + abs (vz this_s0 - vz other_s0)"

text \<open>The outer loop over the scan points, run on the indices \<open>[0..<n]\<close>. It
  returns \<open>Inr False\<close> where the source returns false from inside the loop and
  \<open>Inr True\<close> where the loop runs to its end.\<close>

primrec eq_scan_points :: "beam \<Rightarrow> beam \<Rightarrow> nat list \<Rightarrow> error + bool" where
  "eq_scan_points this rhs [] = Inr True"
| "eq_scan_points this rhs (j # js) =
     (case get_s0_at_scan_point this j of
        Inl e \<Rightarrow> Inl e
      | Inr this_s0 \<Rightarrow>
          (case get_s0_at_scan_point rhs j of
             Inl e \<Rightarrow> Inl e
           | Inr other_s0 \<Rightarrow>
               if d_s0 this_s0 other_s0 > eps then Inr False
               else eq_scan_points this rhs js))"

text \<open>\<^verbatim>\<open>Beam::operator==\<close>. The conjunction of the static checks is evaluated
  left to right and stops at the first false conjunct; \<^verbatim>\<open>rhs.get_wavelength()\<close>, in
  the second conjunct, is the only call of the chain that can throw.\<close>

definition Beam_eq :: "beam \<Rightarrow> beam \<Rightarrow> error + bool" where
  "Beam_eq this rhs =
     (case get_num_scan_points this of
        Inl e \<Rightarrow> Inl e
      | Inr n \<Rightarrow>
          (case (if n > 0 then
                   (case get_num_scan_points rhs of
                      Inl e \<Rightarrow> Inl e
                    | Inr m \<Rightarrow>
                        if n \<noteq> m then Inr False
                        else eq_scan_points this rhs [0..<n])
                 else Inr True) of
             Inl e \<Rightarrow> Inl e
           | Inr scan_ok \<Rightarrow>
               if \<not> scan_ok then Inr False
               else if \<not> abs (angle_safe (direction this)
                                 (get_sample_to_source_direction rhs)) \<le> eps
               then Inr False
               else
                 (case get_wavelength rhs of
                    Inl e \<Rightarrow> Inl e
                  | Inr rhs_wavelength \<Rightarrow>
                      Inr (abs (wavelength this - rhs_wavelength) \<le> eps
                           \<and> abs (divergence this - get_divergence rhs) \<le> eps
                           \<and> abs (sigma_divergence this - get_sigma_divergence rhs) \<le> eps
                           \<and> abs (angle_safe (polarization_normal this)
                                    (get_polarization_normal rhs)) \<le> eps
                           \<and> abs (polarization_fraction this
                                    - get_polarization_fraction rhs) \<le> eps
                           \<and> abs (flux this - get_flux rhs) \<le> eps
                           \<and> abs (transmission this - get_transmission rhs) \<le> eps
                           \<and> abs (sample_to_source_distance this
                                    - get_sample_to_source_distance rhs) \<le> eps
                           \<and> probe this = get_probe rhs))))"

text \<open>\<^verbatim>\<open>PolychromaticBeam::operator==\<close> calls no getter that can throw.\<close>

definition PolychromaticBeam_eq :: "beam \<Rightarrow> beam \<Rightarrow> bool" where
  "PolychromaticBeam_eq this rhs =
     (abs (angle_safe (direction this) (get_sample_to_source_direction rhs)) \<le> eps
      \<and> abs (divergence this - get_divergence rhs) \<le> eps
      \<and> abs (sigma_divergence this - get_sigma_divergence rhs) \<le> eps
      \<and> abs (angle_safe (polarization_normal this) (get_polarization_normal rhs)) \<le> eps
      \<and> abs (polarization_fraction this - get_polarization_fraction rhs) \<le> eps
      \<and> abs (flux this - get_flux rhs) \<le> eps
      \<and> abs (transmission this - get_transmission rhs) \<le> eps
      \<and> abs (sample_to_source_distance this - get_sample_to_source_distance rhs) \<le> eps
      \<and> probe this = get_probe rhs)"

text \<open>The virtual call \<^verbatim>\<open>a == b\<close>, dispatched on the class of the left operand.\<close>

definition operator_eq :: "beam \<Rightarrow> beam \<Rightarrow> error + bool" where
  "operator_eq this rhs =
     (case variant this of
        Monochromatic \<Rightarrow> Beam_eq this rhs
      | Polychromatic \<Rightarrow> Inr (PolychromaticBeam_eq this rhs))"

definition operator_ne :: "beam \<Rightarrow> beam \<Rightarrow> error + bool" where
  "operator_ne this rhs =
     (case operator_eq this rhs of Inl e \<Rightarrow> Inl e | Inr r \<Rightarrow> Inr (\<not> r))"

subsection \<open>Similarity\<close>

text \<open>The scan-point loop that both overloads of \<^verbatim>\<open>Beam::is_similar_to\<close> run, on
  the indices \<open>[0..<n]\<close>.\<close>

primrec similar_scan_points ::
  "beam \<Rightarrow> beam \<Rightarrow> real \<Rightarrow> real \<Rightarrow> nat list \<Rightarrow> error + bool" where
  "similar_scan_points this rhs wavelength_tolerance direction_tolerance [] = Inr True"
| "similar_scan_points this rhs wavelength_tolerance direction_tolerance (i # js) =
     (case get_s0_at_scan_point this i of
        Inl e \<Rightarrow> Inl e
      | Inr s0_a \<Rightarrow>
          (case get_s0_at_scan_point rhs i of
             Inl e \<Rightarrow> Inl e
           | Inr s0_b \<Rightarrow>
               if abs (angle_safe (normalize_vec3 s0_a) (normalize_vec3 s0_b))
                    > direction_tolerance
               then Inr False
               else if abs (1 / length_vec3 s0_a - 1 / length_vec3 s0_b)
                         > wavelength_tolerance
               then Inr False
               else similar_scan_points this rhs wavelength_tolerance
                      direction_tolerance js))"

text \<open>The overload of \<^verbatim>\<open>Beam::is_similar_to\<close> with four tolerances.\<close>

definition Beam_is_similar_to_core ::
  "beam \<Rightarrow> beam \<Rightarrow> real \<Rightarrow> real \<Rightarrow> real \<Rightarrow> real \<Rightarrow> error + bool" where
  "Beam_is_similar_to_core this rhs wavelength_tolerance direction_tolerance
       polarization_normal_tolerance polarization_fraction_tolerance =
     (case get_num_scan_points this of
        Inl e \<Rightarrow> Inl e
      | Inr n \<Rightarrow>
          (case get_num_scan_points rhs of
             Inl e \<Rightarrow> Inl e
           | Inr m \<Rightarrow>
               if n \<noteq> m then Inr False
               else
                 (case similar_scan_points this rhs wavelength_tolerance
                         direction_tolerance [0..<n] of
                    Inl e \<Rightarrow> Inl e
                  | Inr scan_ok \<Rightarrow>
                      if \<not> scan_ok then Inr False
                      else if \<not> abs (angle_safe (direction this)
                                        (get_sample_to_source_direction rhs))
                                 \<le> direction_tolerance
                      then Inr False
                      else
                        (case get_wavelength rhs of
                           Inl e \<Rightarrow> Inl e
                         | Inr rhs_wavelength \<Rightarrow>
                             Inr (abs (wavelength this - rhs_wavelength)
                                    \<le> wavelength_tolerance
                                  \<and> abs (angle_safe (polarization_normal this)
                                           (get_polarization_normal rhs))
                                    \<le> polarization_normal_tolerance
                                  \<and> abs (polarization_fraction this
                                           - get_polarization_fraction rhs)
                                    \<le> polarization_fraction_tolerance
                                  \<and> probe this = get_probe rhs)))))"

text \<open>The overload of \<^verbatim>\<open>Beam::is_similar_to\<close> with nine tolerances, the last five
  defaulting to 1e-6. It compares no probe.\<close>

definition Beam_is_similar_to ::
  "beam \<Rightarrow> beam \<Rightarrow> real \<Rightarrow> real \<Rightarrow> real \<Rightarrow> real \<Rightarrow> real \<Rightarrow> real \<Rightarrow> real \<Rightarrow> real \<Rightarrow> real
     \<Rightarrow> error + bool" where
  "Beam_is_similar_to this rhs wavelength_tolerance direction_tolerance
       polarization_normal_tolerance polarization_fraction_tolerance
       divergence_tolerance sigma_divergence_tolerance flux_tolerance
       transmission_tolerance sample_to_source_tolerance =
     (case get_num_scan_points this of
        Inl e \<Rightarrow> Inl e
      | Inr n \<Rightarrow>
          (case get_num_scan_points rhs of
             Inl e \<Rightarrow> Inl e
           | Inr m \<Rightarrow>
               if n \<noteq> m then Inr False
               else
                 (case similar_scan_points this rhs wavelength_tolerance
                         direction_tolerance [0..<n] of
                    Inl e \<Rightarrow> Inl e
                  | Inr scan_ok \<Rightarrow>
                      if \<not> scan_ok then Inr False
                      else if \<not> abs (angle_safe (direction this)
                                        (get_sample_to_source_direction rhs))
                                 \<le> direction_tolerance
                      then Inr False
                      else
                        (case get_wavelength rhs of
                           Inl e \<Rightarrow> Inl e
                         | Inr rhs_wavelength \<Rightarrow>
                             Inr (abs (wavelength this - rhs_wavelength)
                                    \<le> wavelength_tolerance
                                  \<and> abs (angle_safe (polarization_normal this)
                                           (get_polarization_normal rhs))
                                    \<le> polarization_normal_tolerance
                                  \<and> abs (polarization_fraction this
                                           - get_polarization_fraction rhs)
                                    \<le> polarization_fraction_tolerance
                                  \<and> abs (divergence this - get_divergence rhs)
                                    \<le> divergence_tolerance
                                  \<and> abs (sigma_divergence this - get_sigma_divergence rhs)
                                    \<le> sigma_divergence_tolerance
                                  \<and> abs (flux this - get_flux rhs) \<le> flux_tolerance
                                  \<and> abs (transmission this - get_transmission rhs)
                                    \<le> transmission_tolerance
                                  \<and> abs (sample_to_source_distance this
                                           - get_sample_to_source_distance rhs)
                                    \<le> sample_to_source_tolerance)))))"

text \<open>The overload of \<^verbatim>\<open>PolychromaticBeam::is_similar_to\<close> with eight tolerances,
  the last five defaulting to 1e-6. Its body never reads \<^verbatim>\<open>divergence_tolerance\<close>
  or \<^verbatim>\<open>sigma_divergence_tolerance\<close>.\<close>

definition PolychromaticBeam_is_similar_to ::
  "beam \<Rightarrow> beam \<Rightarrow> real \<Rightarrow> real \<Rightarrow> real \<Rightarrow> real \<Rightarrow> real \<Rightarrow> real \<Rightarrow> real \<Rightarrow> real \<Rightarrow> bool" where
  "PolychromaticBeam_is_similar_to this rhs direction_tolerance
       polarization_normal_tolerance polarization_fraction_tolerance
       divergence_tolerance sigma_divergence_tolerance flux_tolerance
       transmission_tolerance sample_to_source_tolerance =
     (abs (angle_safe (direction this) (get_sample_to_source_direction rhs))
        \<le> direction_tolerance
      \<and> abs (angle_safe (polarization_normal this) (get_polarization_normal rhs))
        \<le> polarization_normal_tolerance
      \<and> abs (polarization_fraction this - get_polarization_fraction rhs)
        \<le> polarization_fraction_tolerance
      \<and> abs (flux this - get_flux rhs) \<le> flux_tolerance
      \<and> abs (transmission this - get_transmission rhs) \<le> transmission_tolerance
      \<and> abs (sample_to_source_distance this - get_sample_to_source_distance rhs)
        \<le> sample_to_source_tolerance
      \<and> probe this = get_probe rhs)"

text \<open>The overload of \<^verbatim>\<open>PolychromaticBeam::is_similar_to\<close> that takes a wavelength
  tolerance: it drops it and calls the overload above with the five defaults.\<close>

definition PolychromaticBeam_is_similar_to_core ::
  "beam \<Rightarrow> beam \<Rightarrow> real \<Rightarrow> real \<Rightarrow> real \<Rightarrow> real \<Rightarrow> bool" where
  "PolychromaticBeam_is_similar_to_core this rhs wavelength_tolerance direction_tolerance
       polarization_normal_tolerance polarization_fraction_tolerance =
     PolychromaticBeam_is_similar_to this rhs direction_tolerance
       polarization_normal_tolerance polarization_fraction_tolerance
       (1 / 1000000) (1 / 1000000) (1 / 1000000) (1 / 1000000) (1 / 1000000)"

subsection \<open>Construction profiles and sequences of mutating calls\<close>

datatype profile =
    New_Beam
  | New_Beam_s0 vec3
  | New_Beam_direction_wavelength vec3 real
  | New_Beam_s0_divergence vec3 real real
  | New_Beam_direction_wavelength_divergence vec3 real real real
  | New_Beam_all_but_distance vec3 real real real vec3 real real real Probe
  | New_Beam_all vec3 real real real vec3 real real real Probe real

definition construct :: "profile \<Rightarrow> error + beam" where
  "construct p =
     (case p of
        New_Beam \<Rightarrow> Inr Beam_default
      | New_Beam_s0 s0 \<Rightarrow> Beam_s0 s0
      | New_Beam_direction_wavelength dir wl \<Rightarrow> Beam_direction_wavelength dir wl
      | New_Beam_s0_divergence s0 dv sdv \<Rightarrow> Beam_s0_divergence s0 dv sdv
      | New_Beam_direction_wavelength_divergence dir wl dv sdv \<Rightarrow>
          Beam_direction_wavelength_divergence dir wl dv sdv
      | New_Beam_all_but_distance dir wl dv sdv pn pf fl tr pr \<Rightarrow>
          Beam_all_but_distance dir wl dv sdv pn pf fl tr pr
      | New_Beam_all dir wl dv sdv pn pf fl tr pr dst \<Rightarrow>
          Beam_all dir wl dv sdv pn pf fl tr pr dst)"

datatype call =
    Set_direction vec3
  | Set_wavelength real
  | Set_s0 vec3
  | Set_unit_s0 vec3
  | Set_divergence real
  | Set_sigma_divergence real
  | Set_polarization_normal vec3
  | Set_polarization_fraction real
  | Set_flux real
  | Set_transmission real
  | Set_s0_at_scan_points "vec3 list"
  | Set_probe Probe
  | Set_sample_to_source_distance real
  | Reset_scan_points
  | Rotate_around_origin vec3 real

definition invoke :: "beam \<Rightarrow> call \<Rightarrow> error + beam" where
  "invoke b c =
     (case c of
        Set_direction v \<Rightarrow> set_direction b v
      | Set_wavelength w \<Rightarrow> set_wavelength b w
      | Set_s0 v \<Rightarrow> set_s0 b v
      | Set_unit_s0 v \<Rightarrow> set_unit_s0 b v
      | Set_divergence x \<Rightarrow> Inr (set_divergence b x)
      | Set_sigma_divergence x \<Rightarrow> Inr (set_sigma_divergence b x)
      | Set_polarization_normal v \<Rightarrow> Inr (set_polarization_normal b v)
      | Set_polarization_fraction x \<Rightarrow> Inr (set_polarization_fraction b x)
      | Set_flux x \<Rightarrow> Inr (set_flux b x)
      | Set_transmission x \<Rightarrow> Inr (set_transmission b x)
      | Set_s0_at_scan_points vs \<Rightarrow> set_s0_at_scan_points b vs
      | Set_probe p \<Rightarrow> Inr (set_probe b p)
      | Set_sample_to_source_distance x \<Rightarrow> set_sample_to_source_distance b x
      | Reset_scan_points \<Rightarrow> reset_scan_points b
      | Rotate_around_origin axis angle \<Rightarrow> Inr (rotate_around_origin b axis angle))"

text \<open>A call that throws leaves the object as it was (every setter checks before it
  assigns), and the caller may go on with the next call.\<close>

definition step :: "beam \<Rightarrow> call \<Rightarrow> beam" where
  "step b c = (case invoke b c of Inl e \<Rightarrow> b | Inr b' \<Rightarrow> b')"

definition run :: "beam \<Rightarrow> call list \<Rightarrow> beam" where
  "run b cs = foldl step b cs"

text \<open>The wavelength that a construction profile writes, and the wavelength that is
  stored after a call when it was \<open>w\<close> before: \<open>set_wavelength\<close> writes its argument,
  \<open>set_s0\<close> writes \<^verbatim>\<open>1.0 / s0.length()\<close> when its assertion holds, and no other call
  writes the wavelength.\<close>

definition initial_wavelength :: "profile \<Rightarrow> real" where
  "initial_wavelength p =
     (case p of
        New_Beam \<Rightarrow> 0
      | New_Beam_s0 s0 \<Rightarrow> 1 / length_vec3 s0
      | New_Beam_direction_wavelength dir wl \<Rightarrow> wl
      | New_Beam_s0_divergence s0 dv sdv \<Rightarrow> 1 / length_vec3 s0
      | New_Beam_direction_wavelength_divergence dir wl dv sdv \<Rightarrow> wl
      | New_Beam_all_but_distance dir wl dv sdv pn pf fl tr pr \<Rightarrow> wl
      | New_Beam_all dir wl dv sdv pn pf fl tr pr dst \<Rightarrow> wl)"

definition written_wavelength :: "real \<Rightarrow> call \<Rightarrow> real" where
  "written_wavelength w c =
     (case c of
        Set_wavelength x \<Rightarrow> x
      | Set_s0 v \<Rightarrow> (if length_vec3 v > 0 then 1 / length_vec3 v else w)
      | _ \<Rightarrow> w)"

subsection \<open>Outcomes of a call and example objects\<close>

text \<open>A call fails with an invalid-argument error when it throws from a
  \<^verbatim>\<open>DXTBX_ASSERT\<close>, and with an unsupported-operation error when it throws one of
  the two messages of \<^verbatim>\<open>PolychromaticBeam\<close>.\<close>

definition fails_invalid_argument :: "error + 'a \<Rightarrow> bool" where
  "fails_invalid_argument r = (case r of Inl e \<Rightarrow> invalid_argument e | Inr x \<Rightarrow> False)"

definition fails_unsupported :: "error + 'a \<Rightarrow> bool" where
  "fails_unsupported r = (case r of Inl e \<Rightarrow> unsupported_operation e | Inr x \<Rightarrow> False)"

text \<open>The object that \<^verbatim>\<open>PolychromaticBeam()\<close> builds, and the monochromatic beam
  that \<^verbatim>\<open>Beam(vec3(0,0,1), 1.0)\<close> builds.\<close>

definition poly_example :: beam where
  "poly_example =
     \<lparr>variant = Polychromatic, direction = vec3 0 0 1, divergence = 0,
      sigma_divergence = 0, polarization_normal = vec3 0 1 0,
      polarization_fraction = 0.5, flux = 0, transmission = 1, probe = xray,
      sample_to_source_distance = 0, wavelength = 0, s0_at_scan_points = []\<rparr>"

definition mono_example :: beam where
  "mono_example =
     \<lparr>variant = Monochromatic, direction = vec3 0 0 1, divergence = 0,
      sigma_divergence = 0, polarization_normal = vec3 0 1 0,
      polarization_fraction = 0.999, flux = 0, transmission = 1, probe = xray,
      sample_to_source_distance = 0, wavelength = 1, s0_at_scan_points = []\<rparr>"

section \<open>Properties\<close>

subsection \<open>Lengths and unit vectors\<close>

lemma length_vec3_nonneg: "0 \<le> length_vec3 v"
  by (simp add: length_vec3_def)

lemma length_vec3_pos_iff: "0 < length_vec3 v \<longleftrightarrow> v \<noteq> vec3 0 0 0"
proof (cases v)
  case (vec3 x y z)
  have "0 < x * x + y * y + z * z \<longleftrightarrow> \<not> (x = 0 \<and> y = 0 \<and> z = 0)"
  proof
    assume "0 < x * x + y * y + z * z"
    then show "\<not> (x = 0 \<and> y = 0 \<and> z = 0)" by auto
  next
    assume "\<not> (x = 0 \<and> y = 0 \<and> z = 0)"
    then have "0 < x * x \<or> 0 < y * y \<or> 0 < z * z"
      by (simp add: zero_less_mult_iff) (metis linorder_neqE_linordered_idom)
    moreover have "0 \<le> x * x" "0 \<le> y * y" "0 \<le> z * z" by simp_all
    ultimately show "0 < x * x + y * y + z * z" by linarith
  qed
  with vec3 show ?thesis by (simp add: length_vec3_def)
qed

lemma length_normalize_vec3:
  assumes "v \<noteq> vec3 0 0 0"
  shows "length_vec3 (normalize_vec3 v) = 1"
proof -
  let ?l = "length_vec3 v"
  have pos: "0 < ?l" using assms by (simp add: length_vec3_pos_iff)
  have sq: "?l * ?l = vx v * vx v + vy v * vy v + vz v * vz v"
    by (simp add: length_vec3_def)
  have "vx v / ?l * (vx v / ?l) + vy v / ?l * (vy v / ?l) + vz v / ?l * (vz v / ?l)
          = (vx v * vx v + vy v * vy v + vz v * vz v) / (?l * ?l)"
    by (simp add: add_divide_distrib)
  also have "\<dots> = 1" using pos by (simp add: sq [symmetric])
  finally show ?thesis
    by (simp add: normalize_vec3_def div_vec3_def length_vec3_def)
qed

lemma length_vec3_x: "length_vec3 (vec3 x 0 0) = abs x"
  by (simp add: length_vec3_def)

lemma length_vec3_y: "length_vec3 (vec3 0 y 0) = abs y"
  by (simp add: length_vec3_def)

lemma length_vec3_z: "length_vec3 (vec3 0 0 z) = abs z"
  by (simp add: length_vec3_def)

lemma normalize_vec3_x: "x \<noteq> 0 \<Longrightarrow> normalize_vec3 (vec3 x 0 0) = vec3 (sgn x) 0 0"
  by (simp add: normalize_vec3_def div_vec3_def length_vec3_x sgn_real_def)

lemma normalize_vec3_y: "y \<noteq> 0 \<Longrightarrow> normalize_vec3 (vec3 0 y 0) = vec3 0 (sgn y) 0"
  by (simp add: normalize_vec3_def div_vec3_def length_vec3_y sgn_real_def)

lemma normalize_vec3_z: "z \<noteq> 0 \<Longrightarrow> normalize_vec3 (vec3 0 0 z) = vec3 0 0 (sgn z)"
  by (simp add: normalize_vec3_def div_vec3_def length_vec3_z sgn_real_def)

lemma PolychromaticBeam_default_value: "PolychromaticBeam_default = Inr poly_example"
  by (simp add: PolychromaticBeam_default_def PolychromaticBeam_base_def Beam_default_def
      set_direction_def length_vec3_z normalize_vec3_z set_divergence_def
      set_sigma_divergence_def set_polarization_normal_def set_polarization_fraction_def
      set_flux_def set_transmission_def set_probe_def set_sample_to_source_distance_def
      poly_example_def)

lemma Beam_direction_wavelength_value:
  "Beam_direction_wavelength (vec3 0 0 1) 1 = Inr mono_example"
  by (simp add: Beam_direction_wavelength_def length_vec3_z normalize_vec3_z mono_example_def)

subsection \<open>The setters that take a direction-like vector\<close>

text \<open>C7: for every beam, monochromatic ones included, and every vector \<open>u\<close>
  that passes the test \<^verbatim>\<open>unit_s0.length() > 0\<close> by which the code tells a nonzero
  vector, \<open>set_unit_s0 u\<close> succeeds and stores \<^verbatim>\<open>-(unit_s0.normalize())\<close>, the negated
  quotient of \<open>u\<close> by its length, as the direction; on any other vector it throws.
  Whenever it returns, the beam it leaves differs from the beam before in the
  direction at most: the wavelength stored and the wavelength read after the call
  are those before the call.\<close>

theorem set_unit_s0_changes_only_direction:
  "set_unit_s0 b u =
     (if length_vec3 u > 0
      then Inr (b\<lparr>direction := neg_vec3 (div_vec3 u (length_vec3 u))\<rparr>)
      else Inl (DXTBX_ASSERT ''unit_s0.length() > 0''))
   \<and> (\<forall>b'. set_unit_s0 b u = Inr b' \<longrightarrow>
          b' = b\<lparr>direction := direction b'\<rparr>
        \<and> wavelength b' = wavelength b
        \<and> get_wavelength b' = get_wavelength b)"
proof -
  have outcome: "set_unit_s0 b u =
     (if length_vec3 u > 0
      then Inr (b\<lparr>direction := neg_vec3 (div_vec3 u (length_vec3 u))\<rparr>)
      else Inl (DXTBX_ASSERT ''unit_s0.length() > 0''))"
    by (simp add: set_unit_s0_def normalize_vec3_def)
  have frame: "b' = b\<lparr>direction := direction b'\<rparr> \<and> wavelength b' = wavelength b
        \<and> get_wavelength b' = get_wavelength b"
    if "set_unit_s0 b u = Inr b'" for b'
  proof -
    from that outcome have b': "b' = b\<lparr>direction := neg_vec3 (div_vec3 u (length_vec3 u))\<rparr>"
      by (simp split: if_splits)
    show ?thesis by (simp add: b' get_wavelength_def split: variant.splits)
  qed
  from outcome frame show ?thesis by blast
qed

theorem set_unit_s0_changes_only_direction_witness:
  "set_unit_s0 (mono_example\<lparr>wavelength := 2\<rparr>) (vec3 1 0 0)
     = Inr (mono_example\<lparr>wavelength := 2, direction := vec3 (- 1) 0 0\<rparr>)
   \<and> get_wavelength (mono_example\<lparr>wavelength := 2\<rparr>) = Inr 2
   \<and> get_wavelength (mono_example\<lparr>wavelength := 2, direction := vec3 (- 1) 0 0\<rparr>) = Inr 2
   \<and> set_unit_s0 (mono_example\<lparr>wavelength := 2\<rparr>) (vec3 0 0 4)
     = Inr (mono_example\<lparr>wavelength := 2, direction := vec3 0 0 (- 1)\<rparr>)
   \<and> set_unit_s0 (mono_example\<lparr>wavelength := 2\<rparr>) (vec3 0 0 0)
     = Inl (DXTBX_ASSERT ''unit_s0.length() > 0'')"
proof -
  let ?b = "mono_example\<lparr>wavelength := 2\<rparr>"
  have lx: "length_vec3 (vec3 1 0 0) = 1" by (simp add: length_vec3_x)
  have lz: "length_vec3 (vec3 0 0 4) = 4" by (simp add: length_vec3_z)
  have l0: "length_vec3 (vec3 0 0 0) = 0" by (simp add: length_vec3_z)
  have w: "get_wavelength ?b = Inr 2"
    by (simp add: get_wavelength_def mono_example_def)
  have x: "set_unit_s0 ?b (vec3 1 0 0) = Inr (?b\<lparr>direction := vec3 (- 1) 0 0\<rparr>)"
    using set_unit_s0_changes_only_direction [of ?b "vec3 1 0 0"]
    by (simp add: lx neg_vec3_def div_vec3_def)
  have x': "get_wavelength (?b\<lparr>direction := vec3 (- 1) 0 0\<rparr>) = Inr 2"
    using set_unit_s0_changes_only_direction [of ?b "vec3 1 0 0"] x w by simp
  have z: "set_unit_s0 ?b (vec3 0 0 4) = Inr (?b\<lparr>direction := vec3 0 0 (- 1)\<rparr>)"
    using set_unit_s0_changes_only_direction [of ?b "vec3 0 0 4"]
    by (simp add: lz neg_vec3_def div_vec3_def)
  have o: "set_unit_s0 ?b (vec3 0 0 0) = Inl (DXTBX_ASSERT ''unit_s0.length() > 0'')"
    using set_unit_s0_changes_only_direction [of ?b "vec3 0 0 0"] by (simp add: l0)
  from w x x' z o show ?thesis by simp
qed

text \<open>C5, as the code has it: \<open>set_direction\<close> and \<open>set_unit_s0\<close>, on a beam of
  either class, and \<open>set_s0\<close>, on a monochromatic beam, fail with an invalid-argument
  error when the test \<^verbatim>\<open>length() > 0\<close> on the given vector fails, as it does on a
  zero-length vector, and otherwise store the quotient of the vector by its length:
  \<open>set_direction\<close> stores \<^verbatim>\<open>v.normalize()\<close>, the other two store its negation, and
  \<open>set_s0\<close> stores the wavelength \<^verbatim>\<open>1.0 / v.length()\<close> as well. On a polychromatic beam
  \<open>set_s0\<close> fails with an unsupported-operation error whatever the vector.
  \<open>set_polarization_normal\<close> accepts every vector and stores it as given.\<close>

theorem direction_setters_check_length:
  "(\<not> length_vec3 v > 0 \<longrightarrow>
        fails_invalid_argument (set_direction b v)
      \<and> fails_invalid_argument (set_unit_s0 b v)
      \<and> (variant b = Monochromatic \<longrightarrow> fails_invalid_argument (set_s0 b v)))
   \<and> (length_vec3 v > 0 \<longrightarrow>
        set_direction b v = Inr (b\<lparr>direction := div_vec3 v (length_vec3 v)\<rparr>)
      \<and> set_unit_s0 b v = Inr (b\<lparr>direction := neg_vec3 (div_vec3 v (length_vec3 v))\<rparr>)
      \<and> (variant b = Monochromatic \<longrightarrow>
            set_s0 b v = Inr (b\<lparr>direction := neg_vec3 (div_vec3 v (length_vec3 v)),
                                wavelength := 1 / length_vec3 v\<rparr>)))
   \<and> (variant b = Polychromatic \<longrightarrow> fails_unsupported (set_s0 b v))
   \<and> set_polarization_normal b v = b\<lparr>polarization_normal := v\<rparr>"
proof -
  have rejected: "\<not> length_vec3 v > 0 \<longrightarrow>
        fails_invalid_argument (set_direction b v)
      \<and> fails_invalid_argument (set_unit_s0 b v)
      \<and> (variant b = Monochromatic \<longrightarrow> fails_invalid_argument (set_s0 b v))"
    by (simp add: set_direction_def set_s0_def set_unit_s0_def
        fails_invalid_argument_def invalid_argument_def)
  have stored: "length_vec3 v > 0 \<longrightarrow>
        set_direction b v = Inr (b\<lparr>direction := div_vec3 v (length_vec3 v)\<rparr>)
      \<and> set_unit_s0 b v = Inr (b\<lparr>direction := neg_vec3 (div_vec3 v (length_vec3 v))\<rparr>)
      \<and> (variant b = Monochromatic \<longrightarrow>
            set_s0 b v = Inr (b\<lparr>direction := neg_vec3 (div_vec3 v (length_vec3 v)),
                                wavelength := 1 / length_vec3 v\<rparr>))"
    by (simp add: set_direction_def set_s0_def set_unit_s0_def normalize_vec3_def)
  have poly: "variant b = Polychromatic \<longrightarrow> fails_unsupported (set_s0 b v)"
    by (simp add: set_s0_def fails_unsupported_def unsupported_operation_def)
  have pn: "set_polarization_normal b v = b\<lparr>polarization_normal := v\<rparr>"
    by (simp add: set_polarization_normal_def)
  from rejected stored poly pn show ?thesis by blast
qed

theorem direction_setters_check_length_witness:
  "\<not> length_vec3 (vec3 0 0 0) > 0
   \<and> fails_invalid_argument (set_direction mono_example (vec3 0 0 0))
   \<and> fails_invalid_argument (set_unit_s0 mono_example (vec3 0 0 0))
   \<and> fails_invalid_argument (set_s0 mono_example (vec3 0 0 0))
   \<and> fails_invalid_argument (set_direction poly_example (vec3 0 0 0))
   \<and> fails_invalid_argument (set_unit_s0 poly_example (vec3 0 0 0))
   \<and> length_vec3 (vec3 0 2 0) > 0
   \<and> set_direction mono_example (vec3 0 2 0) = Inr (mono_example\<lparr>direction := vec3 0 1 0\<rparr>)
   \<and> set_unit_s0 mono_example (vec3 0 2 0)
       = Inr (mono_example\<lparr>direction := vec3 0 (- 1) 0\<rparr>)
   \<and> set_s0 mono_example (vec3 0 2 0)
       = Inr (mono_example\<lparr>direction := vec3 0 (- 1) 0, wavelength := 1 / 2\<rparr>)
   \<and> set_direction poly_example (vec3 0 2 0) = Inr (poly_example\<lparr>direction := vec3 0 1 0\<rparr>)
   \<and> set_unit_s0 poly_example (vec3 0 2 0)
       = Inr (poly_example\<lparr>direction := vec3 0 (- 1) 0\<rparr>)
   \<and> fails_unsupported (set_s0 poly_example (vec3 0 2 0))
   \<and> set_polarization_normal mono_example (vec3 0 2 0)
       = mono_example\<lparr>polarization_normal := vec3 0 2 0\<rparr>"
proof -
  have m: "variant mono_example = Monochromatic" by (simp add: mono_example_def)
  have p: "variant poly_example = Polychromatic" by (simp add: poly_example_def)
  have l0: "length_vec3 (vec3 0 0 0) = 0" by (simp add: length_vec3_y)
  have l2: "length_vec3 (vec3 0 2 0) = 2" by (simp add: length_vec3_y)
  have q: "div_vec3 (vec3 0 2 0) 2 = vec3 0 1 0" by (simp add: div_vec3_def)
  have n: "neg_vec3 (vec3 0 1 0) = vec3 0 (- 1) 0" by (simp add: neg_vec3_def)
  show ?thesis
    using direction_setters_check_length [of "vec3 0 0 0" mono_example]
      direction_setters_check_length [of "vec3 0 0 0" poly_example]
      direction_setters_check_length [of "vec3 0 2 0" mono_example]
      direction_setters_check_length [of "vec3 0 2 0" poly_example]
    by (simp add: m p l0 l2 q n)
qed

text \<open>The claim C5 as the specification words it fails. \<open>set_polarization_normal\<close>
  called with the zero vector returns normally, and called with a vector of length
  two it stores that vector, not its unit form. \<open>set_s0\<close> on a polychromatic beam
  throws the unsupported-operation error on a vector of length two instead of storing
  anything, and \<open>set_unit_s0\<close> stores the negated unit form, (0, -1, 0) for
  (0, 2, 0).\<close>

theorem set_polarization_normal_counterexample:
  "invoke mono_example (Set_polarization_normal (vec3 0 0 0))
     = Inr (mono_example\<lparr>polarization_normal := vec3 0 0 0\<rparr>)
   \<and> invoke mono_example (Set_polarization_normal (vec3 0 2 0))
     = Inr (mono_example\<lparr>polarization_normal := vec3 0 2 0\<rparr>)
   \<and> length_vec3 (vec3 0 2 0) = 2
   \<and> set_s0 poly_example (vec3 0 2 0) = Inl (DXTBX_ERROR ''PolychromaticBeam has no fixed s0'')
   \<and> set_unit_s0 mono_example (vec3 0 2 0)
     = Inr (mono_example\<lparr>direction := vec3 0 (- 1) 0\<rparr>)"
  by (simp add: invoke_def set_polarization_normal_def length_vec3_y set_s0_def
      poly_example_def set_unit_s0_def normalize_vec3_y neg_vec3_def)

subsection \<open>The wave vector\<close>

text \<open>What \<open>get_s0\<close> returns on the beam that a \<open>set_s0\<close> leaves: the same quotient
  taken back, \<^verbatim>\<open>-direction_ * 1.0 / wavelength_\<close> with the direction and the wavelength
  that \<open>set_s0\<close> stored. That this vector is the one given to \<open>set_s0\<close> is a fact of
  exact arithmetic and is not stated here.\<close>

lemma get_s0_after_set_s0:
  assumes "variant b = Monochromatic" and "set_s0 b v = Inr b'"
  shows "length_vec3 v > 0
       \<and> direction b' = neg_vec3 (div_vec3 v (length_vec3 v))
       \<and> wavelength b' = 1 / length_vec3 v
       \<and> get_s0 b' =
           (if wavelength b' \<noteq> 0
            then Inr (div_vec3 (mul_vec3 (neg_vec3 (direction b')) 1) (wavelength b'))
            else Inl (DXTBX_ASSERT ''wavelength_ != 0.0''))"
proof -
  from assms have pos: "length_vec3 v > 0"
    and b': "b' = b\<lparr>direction := neg_vec3 (div_vec3 v (length_vec3 v)),
                     wavelength := 1 / length_vec3 v\<rparr>"
    by (auto simp add: set_s0_def normalize_vec3_def split: if_splits)
  from pos assms(1) show ?thesis by (simp add: b' get_s0_def)
qed

subsection \<open>The operations a polychromatic beam refuses\<close>

text \<open>C2, as the code has it: on every polychromatic beam the nine calls
  \<open>get_wavelength\<close>, \<open>set_wavelength\<close>, \<open>get_s0\<close>, \<open>set_s0\<close>,
  \<open>get_num_scan_points\<close>, \<open>get_s0_at_scan_points\<close>, \<open>set_s0_at_scan_points\<close>,
  \<open>get_s0_at_scan_point\<close> and \<open>reset_scan_points\<close> fail with an
  unsupported-operation error. \<open>get_unit_s0\<close> and \<open>set_unit_s0\<close> are inherited from
  the monochromatic class: the first returns the negated direction, the second stores
  \<open>- unit u\<close> as the direction and fails only on a zero-length vector, with an
  invalid-argument error.\<close>

theorem polychromatic_unsupported_calls:
  assumes "variant b = Polychromatic"
  shows "fails_unsupported (get_wavelength b)
       \<and> fails_unsupported (set_wavelength b w)
       \<and> fails_unsupported (get_s0 b)
       \<and> fails_unsupported (set_s0 b v)
       \<and> fails_unsupported (get_num_scan_points b)
       \<and> fails_unsupported (get_s0_at_scan_points b)
       \<and> fails_unsupported (set_s0_at_scan_points b vs)
       \<and> fails_unsupported (get_s0_at_scan_point b i)
       \<and> fails_unsupported (reset_scan_points b)
       \<and> get_unit_s0 b = neg_vec3 (direction b)
       \<and> set_unit_s0 b u =
           (if length_vec3 u > 0 then Inr (b\<lparr>direction := neg_vec3 (normalize_vec3 u)\<rparr>)
            else Inl (DXTBX_ASSERT ''unit_s0.length() > 0''))"
  using assms
  by (simp add: fails_unsupported_def unsupported_operation_def get_wavelength_def
      set_wavelength_def get_s0_def set_s0_def get_num_scan_points_def
      get_s0_at_scan_points_def set_s0_at_scan_points_def get_s0_at_scan_point_def
      reset_scan_points_def get_unit_s0_def set_unit_s0_def)

theorem polychromatic_unsupported_calls_witness:
  "variant poly_example = Polychromatic
   \<and> fails_unsupported (get_wavelength poly_example)
   \<and> fails_unsupported (set_wavelength poly_example 1)
   \<and> fails_unsupported (get_s0 poly_example)
   \<and> fails_unsupported (set_s0 poly_example (vec3 0 0 1))
   \<and> fails_unsupported (get_num_scan_points poly_example)
   \<and> fails_unsupported (get_s0_at_scan_points poly_example)
   \<and> fails_unsupported (set_s0_at_scan_points poly_example [vec3 0 0 1])
   \<and> fails_unsupported (get_s0_at_scan_point poly_example 0)
   \<and> fails_unsupported (reset_scan_points poly_example)"
proof -
  have p: "variant poly_example = Polychromatic" by (simp add: poly_example_def)
  show ?thesis
    using polychromatic_unsupported_calls
      [OF p, of 1 "vec3 0 0 1" "[vec3 0 0 1]" 0 "vec3 1 0 0"] p
    by simp
qed

text \<open>The claim C2 as the specification words it fails for \<open>get_unit_s0\<close> and
  \<open>set_unit_s0\<close>: on the beam that \<^verbatim>\<open>PolychromaticBeam()\<close> builds, the first returns
  (0, 0, -1) and the second returns normally with the direction (-1, 0, 0).\<close>

theorem polychromatic_unit_s0_counterexample:
  "PolychromaticBeam_default = Inr poly_example
   \<and> variant poly_example = Polychromatic
   \<and> get_unit_s0 poly_example = vec3 0 0 (- 1)
   \<and> set_unit_s0 poly_example (vec3 1 0 0)
       = Inr (poly_example\<lparr>direction := vec3 (- 1) 0 0\<rparr>)
   \<and> \<not> fails_unsupported (set_unit_s0 poly_example (vec3 1 0 0))"
proof -
  have d: "neg_vec3 (normalize_vec3 (vec3 1 0 0)) = vec3 (- 1) 0 0"
    by (simp add: normalize_vec3_x neg_vec3_def)
  have "get_unit_s0 poly_example = vec3 0 0 (- 1)"
    by (simp add: get_unit_s0_def poly_example_def neg_vec3_def)
  moreover have s: "set_unit_s0 poly_example (vec3 1 0 0)
       = Inr (poly_example\<lparr>direction := vec3 (- 1) 0 0\<rparr>)"
    by (simp add: set_unit_s0_def length_vec3_x d)
  moreover have "\<not> fails_unsupported (set_unit_s0 poly_example (vec3 1 0 0))"
    by (simp add: s fails_unsupported_def)
  moreover have "variant poly_example = Polychromatic" by (simp add: poly_example_def)
  ultimately show ?thesis by (simp add: PolychromaticBeam_default_value)
qed

subsection \<open>The sample-to-source distance\<close>

lemma step_distance_nonneg:
  "0 \<le> sample_to_source_distance b \<Longrightarrow> 0 \<le> sample_to_source_distance (step b c)"
  by (cases c)
    (simp_all add: step_def invoke_def set_direction_def set_wavelength_def set_s0_def
      set_unit_s0_def set_divergence_def set_sigma_divergence_def
      set_polarization_normal_def set_polarization_fraction_def set_flux_def
      set_transmission_def set_s0_at_scan_points_def set_probe_def
      set_sample_to_source_distance_def reset_scan_points_def rotate_around_origin_def
      split: variant.splits)

lemma run_distance_nonneg:
  "0 \<le> sample_to_source_distance b \<Longrightarrow> 0 \<le> sample_to_source_distance (run b cs)"
  unfolding run_def
  by (induction cs arbitrary: b) (simp_all add: step_distance_nonneg)

lemma construct_distance_nonneg:
  assumes "construct p = Inr b"
    and "(case p of New_Beam_all dir wl dv sdv pn pf fl tr pr dst \<Rightarrow> 0 \<le> dst | _ \<Rightarrow> True)"
  shows "0 \<le> sample_to_source_distance b"
  using assms
  by (cases p)
    (auto simp add: construct_def Beam_default_def Beam_s0_def
      Beam_direction_wavelength_def Beam_s0_divergence_def
      Beam_direction_wavelength_divergence_def Beam_all_but_distance_def Beam_all_def
      split: if_splits)

lemma PolychromaticBeam_all_distance_nonneg:
  "PolychromaticBeam_all dir dv sdv pn pf fl tr pr dst = Inr b
   \<Longrightarrow> 0 \<le> sample_to_source_distance b"
  by (auto simp add: PolychromaticBeam_all_def set_sample_to_source_distance_def
      split: if_splits)

lemma PolychromaticBeam_direction_distance_nonneg:
  "PolychromaticBeam_direction_distance dir dst = Inr b
   \<Longrightarrow> 0 \<le> sample_to_source_distance b"
  by (auto simp add: PolychromaticBeam_direction_distance_def
      set_sample_to_source_distance_def set_divergence_def set_sigma_divergence_def
      set_polarization_normal_def set_polarization_fraction_def set_flux_def
      set_transmission_def set_probe_def
      split: if_splits)

text \<open>C6: the constructor of \<^verbatim>\<open>Beam\<close> that takes a sample-to-source distance
  stores a negative argument unchecked, whereas the setter and the corresponding
  constructor of \<^verbatim>\<open>PolychromaticBeam\<close> reject the same value.\<close>

theorem Beam_all_stores_negative_distance:
  "Beam_all (vec3 0 0 1) 1 0 0 (vec3 0 1 0) 0.999 0 1 xray (- 5)
     = Inr (mono_example\<lparr>sample_to_source_distance := - 5\<rparr>)
   \<and> get_sample_to_source_distance (mono_example\<lparr>sample_to_source_distance := - 5\<rparr>) = - 5
   \<and> fails_invalid_argument (set_sample_to_source_distance mono_example (- 5))
   \<and> fails_invalid_argument
       (PolychromaticBeam_all (vec3 0 0 1) 0 0 (vec3 0 1 0) 0.999 0 1 xray (- 5))"
  by (simp add: Beam_all_def length_vec3_z normalize_vec3_z mono_example_def
      get_sample_to_source_distance_def set_sample_to_source_distance_def
      fails_invalid_argument_def invalid_argument_def PolychromaticBeam_all_def
      set_divergence_def set_sigma_divergence_def set_polarization_normal_def
      set_polarization_fraction_def set_flux_def set_transmission_def set_probe_def)

subsection \<open>The wavelength\<close>

lemma construct_wavelength:
  "construct p = Inr b \<Longrightarrow> variant b = Monochromatic \<and> wavelength b = initial_wavelength p"
  by (cases p)
    (auto simp add: construct_def initial_wavelength_def Beam_default_def Beam_s0_def
      Beam_direction_wavelength_def Beam_s0_divergence_def
      Beam_direction_wavelength_divergence_def Beam_all_but_distance_def Beam_all_def
      split: if_splits)

lemma step_wavelength:
  "variant b = Monochromatic \<Longrightarrow>
     variant (step b c) = Monochromatic
     \<and> wavelength (step b c) = written_wavelength (wavelength b) c"
  by (cases c)
    (simp_all add: step_def invoke_def written_wavelength_def set_direction_def
      set_wavelength_def set_s0_def set_unit_s0_def set_divergence_def
      set_sigma_divergence_def set_polarization_normal_def set_polarization_fraction_def
      set_flux_def set_transmission_def set_s0_at_scan_points_def set_probe_def
      set_sample_to_source_distance_def reset_scan_points_def rotate_around_origin_def)

lemma run_wavelength:
  "variant b = Monochromatic \<Longrightarrow>
     variant (run b cs) = Monochromatic
     \<and> wavelength (run b cs) = foldl written_wavelength (wavelength b) cs"
  unfolding run_def
proof (induction cs arbitrary: b)
  case Nil
  then show ?case by simp
next
  case (Cons c cs)
  from step_wavelength [OF Cons.prems, of c]
  have s: "variant (step b c) = Monochromatic"
    "wavelength (step b c) = written_wavelength (wavelength b) c"
    by simp_all
  from Cons.IH [OF s(1)] s(2) show ?case by simp
qed

text \<open>C9, as the code has it: nothing checks a wavelength. The wavelength stored in
  a monochromatic beam is the value last written to it, whatever its sign: the
  default constructor writes 0, every constructor that takes a wavelength and
  \<open>set_wavelength\<close> write their argument as given, every constructor that takes a wave
  vector and every \<open>set_s0\<close> that passes its assertion write \<^verbatim>\<open>1.0 / s0.length()\<close>, and
  no other interface operation, a call that throws included, changes it. So the
  wavelength of a beam reached by a construction profile and a sequence of calls is
  positive exactly when the value last written is.\<close>

theorem wavelength_is_last_written:
  assumes "construct p = Inr b"
  shows "variant (run b cs) = Monochromatic
       \<and> wavelength (run b cs) = foldl written_wavelength (initial_wavelength p) cs
       \<and> get_wavelength (run b cs)
           = Inr (foldl written_wavelength (initial_wavelength p) cs)
       \<and> (0 < wavelength (run b cs))
           = (0 < foldl written_wavelength (initial_wavelength p) cs)"
proof -
  from construct_wavelength [OF assms]
  have b: "variant b = Monochromatic" "wavelength b = initial_wavelength p" by simp_all
  from run_wavelength [OF b(1), of cs] b(2)
  have r: "variant (run b cs) = Monochromatic"
    "wavelength (run b cs) = foldl written_wavelength (initial_wavelength p) cs"
    by simp_all
  from r show ?thesis by (simp add: get_wavelength_def)
qed

theorem wavelength_is_last_written_witness:
  "construct New_Beam = Inr Beam_default
   \<and> get_wavelength (run Beam_default []) = Inr 0
   \<and> get_wavelength (run Beam_default [Set_wavelength (- 1), Set_flux 1]) = Inr (- 1)
   \<and> get_wavelength (run Beam_default [Set_s0 (vec3 0 0 4), Set_s0 (vec3 0 0 0)])
       = Inr (1 / 4)
   \<and> construct (New_Beam_direction_wavelength (vec3 0 0 1) 1) = Inr mono_example
   \<and> get_wavelength (run mono_example [Set_unit_s0 (vec3 1 0 0), Set_wavelength 0]) = Inr 0
   \<and> 0 < wavelength (run mono_example [Set_wavelength 2, Set_s0 (vec3 0 0 4)])"
proof -
  have d: "construct New_Beam = Inr Beam_default" by (simp add: construct_def)
  have m: "construct (New_Beam_direction_wavelength (vec3 0 0 1) 1) = Inr mono_example"
    by (simp add: construct_def Beam_direction_wavelength_value)
  have l4: "length_vec3 (vec3 0 0 4) = 4" and l0: "length_vec3 (vec3 0 0 0) = 0"
    by (simp_all add: length_vec3_z)
  show ?thesis
    using wavelength_is_last_written [OF d, of "[]"]
      wavelength_is_last_written [OF d, of "[Set_wavelength (- 1), Set_flux 1]"]
      wavelength_is_last_written [OF d, of "[Set_s0 (vec3 0 0 4), Set_s0 (vec3 0 0 0)]"]
      wavelength_is_last_written [OF m, of "[Set_unit_s0 (vec3 1 0 0), Set_wavelength 0]"]
      wavelength_is_last_written [OF m, of "[Set_wavelength 2, Set_s0 (vec3 0 0 4)]"]
      d m
    by (simp add: initial_wavelength_def written_wavelength_def l4 l0)
qed

text \<open>The claim C9 as the specification words it fails: the default constructor
  leaves the wavelength 0, and \<open>set_wavelength\<close> stores a negative value.\<close>

theorem wavelength_not_positive_counterexample:
  "construct New_Beam = Inr Beam_default
   \<and> variant Beam_default = Monochromatic
   \<and> get_wavelength Beam_default = Inr 0
   \<and> invoke mono_example (Set_wavelength (- 1)) = Inr (mono_example\<lparr>wavelength := - 1\<rparr>)
   \<and> get_wavelength (mono_example\<lparr>wavelength := - 1\<rparr>) = Inr (- 1)"
  by (simp add: construct_def Beam_default_def get_wavelength_def invoke_def
      set_wavelength_def mono_example_def)

subsection \<open>Angles between concrete vectors\<close>

lemma dot_vec3_self: "dot_vec3 v v = length_vec3 v * length_vec3 v"
  by (simp add: dot_vec3_def length_vec3_def)

lemma angle_safe_self: "v \<noteq> vec3 0 0 0 \<Longrightarrow> angle_safe v v = 0"
  by (simp add: angle_safe_def dot_vec3_self length_normalize_vec3)

lemma angle_safe_z_x: "angle_safe (vec3 0 0 1) (vec3 1 0 0) = pi / 2"
  by (simp add: angle_safe_def normalize_vec3_z normalize_vec3_x dot_vec3_def)

lemma right_angle_exceeds_eps: "\<not> abs (pi / 2) \<le> eps"
  using pi_ge_two by (simp add: eps_def)

subsection \<open>Strict equality and scan points\<close>

lemma eq_scan_points_True:
  assumes "variant a = Monochromatic" and "variant b = Monochromatic"
    and "eq_scan_points a b js = Inr True" and "j \<in> set js"
  shows "j < length (s0_at_scan_points a) \<and> j < length (s0_at_scan_points b)
         \<and> d_s0 (s0_at_scan_points a ! j) (s0_at_scan_points b ! j) \<le> eps"
  using assms(3,4)
proof (induction js)
  case Nil
  then show ?case by simp
next
  case (Cons k ks)
  from Cons.prems(1) assms(1,2)
  have k: "k < length (s0_at_scan_points a) \<and> k < length (s0_at_scan_points b)
           \<and> d_s0 (s0_at_scan_points a ! k) (s0_at_scan_points b ! k) \<le> eps"
    and rest: "eq_scan_points a b ks = Inr True"
    by (auto simp add: get_s0_at_scan_point_def split: if_splits)
  show ?case
  proof (cases "j = k")
    case True
    with k show ?thesis by simp
  next
    case False
    with Cons.prems(2) have "j \<in> set ks" by simp
    with Cons.IH rest show ?thesis by simp
  qed
qed

lemma Beam_eq_left_scan_points:
  assumes "variant a = Monochromatic" and "variant b = Monochromatic"
    and "s0_at_scan_points a \<noteq> []" and "Beam_eq a b = Inr True"
    and "j < length (s0_at_scan_points a)"
  shows "length (s0_at_scan_points a) = length (s0_at_scan_points b)
         \<and> d_s0 (s0_at_scan_points a ! j) (s0_at_scan_points b ! j) \<le> eps"
proof -
  let ?n = "length (s0_at_scan_points a)"
  have n: "get_num_scan_points a = Inr ?n" "get_num_scan_points b = Inr (length (s0_at_scan_points b))"
    using assms(1,2) by (simp_all add: get_num_scan_points_def)
  have pos: "0 < ?n" using assms(3) by simp
  have len: "?n = length (s0_at_scan_points b)"
    using assms(4) pos by (simp add: Beam_eq_def n split: if_splits)
  have "eq_scan_points a b [0..<?n] = Inr True"
    using assms(4) pos len
    by (simp add: Beam_eq_def n split: if_splits sum.splits)
  from eq_scan_points_True [OF assms(1,2) this, of j] assms(5) len show ?thesis by simp
qed

text \<open>C3: a beam without scan points on the left compares equal to a beam that
  differs from it only by having a scan point: the scan-point checks of
  \<^verbatim>\<open>Beam::operator==\<close> run only when the left operand has scan points. With the
  operands exchanged the same comparison is false, and the similarity check, which
  compares the two counts first, is false either way.\<close>

theorem operator_eq_ignores_right_scan_points:
  "get_num_scan_points mono_example = Inr 0
   \<and> get_num_scan_points (mono_example\<lparr>s0_at_scan_points := [vec3 0 0 (- 1)]\<rparr>) = Inr 1
   \<and> operator_eq mono_example (mono_example\<lparr>s0_at_scan_points := [vec3 0 0 (- 1)]\<rparr>)
       = Inr True
   \<and> operator_eq (mono_example\<lparr>s0_at_scan_points := [vec3 0 0 (- 1)]\<rparr>) mono_example
       = Inr False
   \<and> Beam_is_similar_to mono_example (mono_example\<lparr>s0_at_scan_points := [vec3 0 0 (- 1)]\<rparr>)
       eps eps eps eps eps eps eps eps eps = Inr False"
proof -
  let ?b = "mono_example\<lparr>s0_at_scan_points := [vec3 0 0 (- 1)]\<rparr>"
  have a0: "get_num_scan_points mono_example = Inr 0"
    by (simp add: get_num_scan_points_def mono_example_def)
  have b1: "get_num_scan_points ?b = Inr 1"
    by (simp add: get_num_scan_points_def mono_example_def)
  have dz: "angle_safe (vec3 0 0 1) (vec3 0 0 1) = 0"
    and dy: "angle_safe (vec3 0 1 0) (vec3 0 1 0) = 0"
    by (simp_all add: angle_safe_self)
  have ab: "operator_eq mono_example ?b = Inr True"
    by (simp add: operator_eq_def Beam_eq_def get_num_scan_points_def mono_example_def
        get_sample_to_source_direction_def get_wavelength_def
        get_divergence_def get_sigma_divergence_def get_polarization_normal_def
        get_polarization_fraction_def get_flux_def get_transmission_def
        get_sample_to_source_distance_def get_probe_def dz dy eps_def)
  have ba: "operator_eq ?b mono_example = Inr False"
    by (simp add: operator_eq_def Beam_eq_def get_num_scan_points_def mono_example_def)
  have sim: "Beam_is_similar_to mono_example ?b eps eps eps eps eps eps eps eps eps = Inr False"
    by (simp add: Beam_is_similar_to_def get_num_scan_points_def mono_example_def)
  from a0 b1 ab ba sim show ?thesis by simp
qed

subsection \<open>Comparisons of polychromatic beams\<close>

lemma PolychromaticBeam_is_similar_to_ignores_divergence:
  "PolychromaticBeam_is_similar_to this (rhs\<lparr>divergence := dv, sigma_divergence := sdv\<rparr>)
     dt pnt pft divt sdt ft tt st
   = PolychromaticBeam_is_similar_to this rhs dt pnt pft divt' sdt' ft tt st"
  by (simp add: PolychromaticBeam_is_similar_to_def get_sample_to_source_direction_def
      get_polarization_normal_def get_polarization_fraction_def get_flux_def
      get_transmission_def get_sample_to_source_distance_def get_probe_def)

text \<open>C4: two polychromatic beams whose divergences differ by 1 and whose
  sigma-divergences differ by 2 are similar under the tolerances 1e-6, in both
  overloads, although the extended overload takes a divergence tolerance and a
  sigma-divergence tolerance; strict equality tells them apart.\<close>

theorem PolychromaticBeam_is_similar_to_skips_divergence:
  "get_divergence poly_example = 0
   \<and> get_divergence (poly_example\<lparr>divergence := 1, sigma_divergence := 2\<rparr>) = 1
   \<and> get_sigma_divergence poly_example = 0
   \<and> get_sigma_divergence (poly_example\<lparr>divergence := 1, sigma_divergence := 2\<rparr>) = 2
   \<and> PolychromaticBeam_is_similar_to poly_example
       (poly_example\<lparr>divergence := 1, sigma_divergence := 2\<rparr>)
       (1 / 1000000) (1 / 1000000) (1 / 1000000) (1 / 1000000) (1 / 1000000)
       (1 / 1000000) (1 / 1000000) (1 / 1000000)
   \<and> PolychromaticBeam_is_similar_to_core poly_example
       (poly_example\<lparr>divergence := 1, sigma_divergence := 2\<rparr>)
       (1 / 1000000) (1 / 1000000) (1 / 1000000) (1 / 1000000)
   \<and> \<not> PolychromaticBeam_eq poly_example
       (poly_example\<lparr>divergence := 1, sigma_divergence := 2\<rparr>)"
proof -
  have dz: "angle_safe (vec3 0 0 1) (vec3 0 0 1) = 0"
    and dy: "angle_safe (vec3 0 1 0) (vec3 0 1 0) = 0"
    by (simp_all add: angle_safe_self)
  have self: "PolychromaticBeam_is_similar_to poly_example poly_example
       (1 / 1000000) (1 / 1000000) (1 / 1000000) (1 / 1000000) (1 / 1000000)
       (1 / 1000000) (1 / 1000000) (1 / 1000000)"
    by (simp add: PolychromaticBeam_is_similar_to_def poly_example_def
        get_sample_to_source_direction_def get_polarization_normal_def
        get_polarization_fraction_def get_flux_def get_transmission_def
        get_sample_to_source_distance_def get_probe_def dz dy)
  have ext: "PolychromaticBeam_is_similar_to poly_example
       (poly_example\<lparr>divergence := 1, sigma_divergence := 2\<rparr>)
       (1 / 1000000) (1 / 1000000) (1 / 1000000) (1 / 1000000) (1 / 1000000)
       (1 / 1000000) (1 / 1000000) (1 / 1000000)"
    using self
    by (simp only: PolychromaticBeam_is_similar_to_ignores_divergence
        [where divt' = "1 / 1000000" and sdt' = "1 / 1000000"])
  have core: "PolychromaticBeam_is_similar_to_core poly_example
       (poly_example\<lparr>divergence := 1, sigma_divergence := 2\<rparr>)
       (1 / 1000000) (1 / 1000000) (1 / 1000000) (1 / 1000000)"
    using ext by (simp only: PolychromaticBeam_is_similar_to_core_def)
  have neq: "\<not> PolychromaticBeam_eq poly_example
       (poly_example\<lparr>divergence := 1, sigma_divergence := 2\<rparr>)"
    by (simp add: PolychromaticBeam_eq_def get_divergence_def poly_example_def eps_def)
  from ext core neq show ?thesis
    by (simp add: get_divergence_def get_sigma_divergence_def poly_example_def)
qed

subsection \<open>Strict equality across the two classes\<close>

lemma PolychromaticBeam_direction_x:
  "PolychromaticBeam_direction (vec3 1 0 0) = Inr (poly_example\<lparr>direction := vec3 1 0 0\<rparr>)"
  by (simp add: PolychromaticBeam_direction_def PolychromaticBeam_base_def Beam_default_def
      length_vec3_x normalize_vec3_x set_divergence_def
      set_sigma_divergence_def set_polarization_normal_def set_polarization_fraction_def
      set_flux_def set_transmission_def set_probe_def set_sample_to_source_distance_def
      poly_example_def)

text \<open>C10, as the code has it: with a monochromatic beam on the left and a
  polychromatic beam on the right, strict equality raises the unsupported-operation
  error when the left beam has scan points (from reading the right beam's scan-point
  count) or when the two directions agree within 1e-6 (from reading the right beam's
  wavelength); when the left beam has no scan points and the directions differ by
  more than 1e-6 the conjunction stops at its first conjunct and the result is false.
  The reverse comparison returns a boolean without error.\<close>

theorem mono_eq_poly_outcome:
  assumes "variant a = Monochromatic" and "variant p = Polychromatic"
  shows "operator_eq a p =
           (if s0_at_scan_points a \<noteq> []
            then Inl (DXTBX_ERROR ''PolychromaticBeam has no fixed s0'')
            else if abs (angle_safe (direction a) (direction p)) \<le> eps
            then Inl (DXTBX_ERROR ''PolychromaticBeam has no fixed wavelength'')
            else Inr False)
         \<and> operator_eq p a = Inr (PolychromaticBeam_eq p a)"
proof -
  have na: "get_num_scan_points a = Inr (length (s0_at_scan_points a))"
    using assms(1) by (simp add: get_num_scan_points_def)
  have np: "get_num_scan_points p = Inl (DXTBX_ERROR ''PolychromaticBeam has no fixed s0'')"
    using assms(2) by (simp add: get_num_scan_points_def)
  have wp: "get_wavelength p = Inl (DXTBX_ERROR ''PolychromaticBeam has no fixed wavelength'')"
    using assms(2) by (simp add: get_wavelength_def)
  have "operator_eq a p = Beam_eq a p"
    using assms(1) by (simp add: operator_eq_def)
  also have "\<dots> =
           (if s0_at_scan_points a \<noteq> []
            then Inl (DXTBX_ERROR ''PolychromaticBeam has no fixed s0'')
            else if abs (angle_safe (direction a) (direction p)) \<le> eps
            then Inl (DXTBX_ERROR ''PolychromaticBeam has no fixed wavelength'')
            else Inr False)"
    by (simp add: Beam_eq_def na np wp get_sample_to_source_direction_def)
  finally have left: "operator_eq a p =
           (if s0_at_scan_points a \<noteq> []
            then Inl (DXTBX_ERROR ''PolychromaticBeam has no fixed s0'')
            else if abs (angle_safe (direction a) (direction p)) \<le> eps
            then Inl (DXTBX_ERROR ''PolychromaticBeam has no fixed wavelength'')
            else Inr False)" .
  have right: "operator_eq p a = Inr (PolychromaticBeam_eq p a)"
    using assms(2) by (simp add: operator_eq_def)
  from left right show ?thesis by simp
qed

theorem mono_eq_poly_outcome_witness:
  "variant mono_example = Monochromatic \<and> variant poly_example = Polychromatic
   \<and> operator_eq mono_example poly_example
       = Inl (DXTBX_ERROR ''PolychromaticBeam has no fixed wavelength'')
   \<and> operator_eq poly_example mono_example = Inr False"
proof -
  have m: "variant mono_example = Monochromatic" by (simp add: mono_example_def)
  have p: "variant poly_example = Polychromatic" by (simp add: poly_example_def)
  have s: "s0_at_scan_points mono_example = []" by (simp add: mono_example_def)
  have d: "abs (angle_safe (direction mono_example) (direction poly_example)) \<le> eps"
    by (simp add: mono_example_def poly_example_def angle_safe_self eps_def)
  have e: "\<not> PolychromaticBeam_eq poly_example mono_example"
    by (simp add: PolychromaticBeam_eq_def get_polarization_fraction_def
        poly_example_def mono_example_def eps_def)
  show ?thesis using mono_eq_poly_outcome [OF m p] m p s d e by simp
qed

text \<open>The claim C10 as it is worded fails: a monochromatic beam without scan points
  whose direction is (0, 0, 1), compared with the polychromatic beam that
  \<^verbatim>\<open>PolychromaticBeam(vec3(1,0,0))\<close> builds, gives false and raises nothing.\<close>

theorem mono_eq_poly_false_counterexample:
  "PolychromaticBeam_direction (vec3 1 0 0) = Inr (poly_example\<lparr>direction := vec3 1 0 0\<rparr>)
   \<and> variant mono_example = Monochromatic
   \<and> variant (poly_example\<lparr>direction := vec3 1 0 0\<rparr>) = Polychromatic
   \<and> operator_eq mono_example (poly_example\<lparr>direction := vec3 1 0 0\<rparr>) = Inr False"
proof -
  have "operator_eq mono_example (poly_example\<lparr>direction := vec3 1 0 0\<rparr>) = Inr False"
    using right_angle_exceeds_eps
    by (simp add: operator_eq_def Beam_eq_def get_num_scan_points_def mono_example_def
        poly_example_def get_sample_to_source_direction_def angle_safe_z_x)
  then show ?thesis
    by (simp add: PolychromaticBeam_direction_x) (simp add: mono_example_def poly_example_def)
qed

subsection \<open>Similarity is monotone in the tolerances\<close>

lemma similar_scan_points_mono:
  assumes "wt \<le> wt'" and "dt \<le> dt'"
  shows "similar_scan_points a b wt dt js = Inr True
         \<Longrightarrow> similar_scan_points a b wt' dt' js = Inr True"
proof (induction js)
  case Nil
  then show ?case by simp
next
  case (Cons i js)
  from Cons.prems obtain s0_a s0_b where
    ga: "get_s0_at_scan_point a i = Inr s0_a" and
    gb: "get_s0_at_scan_point b i = Inr s0_b" and
    ang: "abs (angle_safe (normalize_vec3 s0_a) (normalize_vec3 s0_b)) \<le> dt" and
    wl: "abs (1 / length_vec3 s0_a - 1 / length_vec3 s0_b) \<le> wt" and
    rest: "similar_scan_points a b wt dt js = Inr True"
    by (auto split: sum.splits if_splits)
  from ang assms(2) have ang': "abs (angle_safe (normalize_vec3 s0_a) (normalize_vec3 s0_b)) \<le> dt'"
    by linarith
  from wl assms(1) have wl': "abs (1 / length_vec3 s0_a - 1 / length_vec3 s0_b) \<le> wt'"
    by linarith
  from Cons.IH [OF rest] ga gb ang' wl' show ?case by simp
qed

lemma Beam_is_similar_to_core_True:
  "Beam_is_similar_to_core a b wt dt pnt pft = Inr True \<longleftrightarrow>
     (\<exists>n w. get_num_scan_points a = Inr n \<and> get_num_scan_points b = Inr n
        \<and> similar_scan_points a b wt dt [0..<n] = Inr True
        \<and> abs (angle_safe (direction a) (get_sample_to_source_direction b)) \<le> dt
        \<and> get_wavelength b = Inr w
        \<and> abs (wavelength a - w) \<le> wt
        \<and> abs (angle_safe (polarization_normal a) (get_polarization_normal b)) \<le> pnt
        \<and> abs (polarization_fraction a - get_polarization_fraction b) \<le> pft
        \<and> probe a = get_probe b)"
  by (auto simp add: Beam_is_similar_to_core_def split: sum.splits)

lemma Beam_is_similar_to_True:
  "Beam_is_similar_to a b wt dt pnt pft divt sdt ft tt st = Inr True \<longleftrightarrow>
     (\<exists>n w. get_num_scan_points a = Inr n \<and> get_num_scan_points b = Inr n
        \<and> similar_scan_points a b wt dt [0..<n] = Inr True
        \<and> abs (angle_safe (direction a) (get_sample_to_source_direction b)) \<le> dt
        \<and> get_wavelength b = Inr w
        \<and> abs (wavelength a - w) \<le> wt
        \<and> abs (angle_safe (polarization_normal a) (get_polarization_normal b)) \<le> pnt
        \<and> abs (polarization_fraction a - get_polarization_fraction b) \<le> pft
        \<and> abs (divergence a - get_divergence b) \<le> divt
        \<and> abs (sigma_divergence a - get_sigma_divergence b) \<le> sdt
        \<and> abs (flux a - get_flux b) \<le> ft
        \<and> abs (transmission a - get_transmission b) \<le> tt
        \<and> abs (sample_to_source_distance a - get_sample_to_source_distance b) \<le> st)"
  by (auto simp add: Beam_is_similar_to_def split: sum.splits)

lemma Beam_is_similar_to_core_mono:
  assumes "wt \<le> wt'" and "dt \<le> dt'" and "pnt \<le> pnt'" and "pft \<le> pft'"
    and "Beam_is_similar_to_core a b wt dt pnt pft = Inr True"
  shows "Beam_is_similar_to_core a b wt' dt' pnt' pft' = Inr True"
proof -
  from assms(5) obtain n w where
    h: "get_num_scan_points a = Inr n" "get_num_scan_points b = Inr n"
       "similar_scan_points a b wt dt [0..<n] = Inr True"
       "abs (angle_safe (direction a) (get_sample_to_source_direction b)) \<le> dt"
       "get_wavelength b = Inr w"
       "abs (wavelength a - w) \<le> wt"
       "abs (angle_safe (polarization_normal a) (get_polarization_normal b)) \<le> pnt"
       "abs (polarization_fraction a - get_polarization_fraction b) \<le> pft"
       "probe a = get_probe b"
    unfolding Beam_is_similar_to_core_True by blast
  have "similar_scan_points a b wt' dt' [0..<n] = Inr True"
    using similar_scan_points_mono [OF assms(1,2) h(3)] .
  moreover have "abs (angle_safe (direction a) (get_sample_to_source_direction b)) \<le> dt'"
    using h(4) assms(2) by linarith
  moreover have "abs (wavelength a - w) \<le> wt'" using h(6) assms(1) by linarith
  moreover have "abs (angle_safe (polarization_normal a) (get_polarization_normal b)) \<le> pnt'"
    using h(7) assms(3) by linarith
  moreover have "abs (polarization_fraction a - get_polarization_fraction b) \<le> pft'"
    using h(8) assms(4) by linarith
  ultimately show ?thesis
    unfolding Beam_is_similar_to_core_True using h(1,2,5,9) by blast
qed

lemma Beam_is_similar_to_mono:
  assumes "wt \<le> wt'" and "dt \<le> dt'" and "pnt \<le> pnt'" and "pft \<le> pft'"
    and "divt \<le> divt'" and "sdt \<le> sdt'" and "ft \<le> ft'" and "tt \<le> tt'" and "st \<le> st'"
    and "Beam_is_similar_to a b wt dt pnt pft divt sdt ft tt st = Inr True"
  shows "Beam_is_similar_to a b wt' dt' pnt' pft' divt' sdt' ft' tt' st' = Inr True"
proof -
  from assms(10) obtain n w where
    h: "get_num_scan_points a = Inr n" "get_num_scan_points b = Inr n"
       "similar_scan_points a b wt dt [0..<n] = Inr True"
       "abs (angle_safe (direction a) (get_sample_to_source_direction b)) \<le> dt"
       "get_wavelength b = Inr w"
       "abs (wavelength a - w) \<le> wt"
       "abs (angle_safe (polarization_normal a) (get_polarization_normal b)) \<le> pnt"
       "abs (polarization_fraction a - get_polarization_fraction b) \<le> pft"
       "abs (divergence a - get_divergence b) \<le> divt"
       "abs (sigma_divergence a - get_sigma_divergence b) \<le> sdt"
       "abs (flux a - get_flux b) \<le> ft"
       "abs (transmission a - get_transmission b) \<le> tt"
       "abs (sample_to_source_distance a - get_sample_to_source_distance b) \<le> st"
    unfolding Beam_is_similar_to_True by blast
  have "similar_scan_points a b wt' dt' [0..<n] = Inr True"
    using similar_scan_points_mono [OF assms(1,2) h(3)] .
  moreover have "abs (angle_safe (direction a) (get_sample_to_source_direction b)) \<le> dt'"
    using h(4) assms(2) by linarith
  moreover have "abs (wavelength a - w) \<le> wt'" using h(6) assms(1) by linarith
  moreover have "abs (angle_safe (polarization_normal a) (get_polarization_normal b)) \<le> pnt'"
    using h(7) assms(3) by linarith
  moreover have "abs (polarization_fraction a - get_polarization_fraction b) \<le> pft'"
    using h(8) assms(4) by linarith
  moreover have "abs (divergence a - get_divergence b) \<le> divt'"
    using h(9) assms(5) by linarith
  moreover have "abs (sigma_divergence a - get_sigma_divergence b) \<le> sdt'"
    using h(10) assms(6) by linarith
  moreover have "abs (flux a - get_flux b) \<le> ft'" using h(11) assms(7) by linarith
  moreover have "abs (transmission a - get_transmission b) \<le> tt'"
    using h(12) assms(8) by linarith
  moreover have "abs (sample_to_source_distance a - get_sample_to_source_distance b) \<le> st'"
    using h(13) assms(9) by linarith
  ultimately show ?thesis
    unfolding Beam_is_similar_to_True using h(1,2,5) by blast
qed

lemma PolychromaticBeam_is_similar_to_mono:
  assumes "dt \<le> dt'" and "pnt \<le> pnt'" and "pft \<le> pft'"
    and "ft \<le> ft'" and "tt \<le> tt'" and "st \<le> st'"
    and "PolychromaticBeam_is_similar_to a b dt pnt pft divt sdt ft tt st"
  shows "PolychromaticBeam_is_similar_to a b dt' pnt' pft' divt' sdt' ft' tt' st'"
  using assms unfolding PolychromaticBeam_is_similar_to_def by linarith

text \<open>C8: for every pair of beams and for tolerances \<open>t \<le> t'\<close> componentwise, a
  similarity check that returns true under \<open>t\<close> returns true under \<open>t'\<close>. This
  holds for each of the four overloads: the two of \<^verbatim>\<open>Beam\<close> and the two of
  \<^verbatim>\<open>PolychromaticBeam\<close>. In particular a true result with every tolerance 0
  gives a true result with every tolerance 1e-6.\<close>

theorem is_similar_to_monotone:
  assumes "wt \<le> wt'" and "dt \<le> dt'" and "pnt \<le> pnt'" and "pft \<le> pft'"
    and "divt \<le> divt'" and "sdt \<le> sdt'" and "ft \<le> ft'" and "tt \<le> tt'" and "st \<le> st'"
  shows "(Beam_is_similar_to_core a b wt dt pnt pft = Inr True
            \<longrightarrow> Beam_is_similar_to_core a b wt' dt' pnt' pft' = Inr True)
       \<and> (Beam_is_similar_to a b wt dt pnt pft divt sdt ft tt st = Inr True
            \<longrightarrow> Beam_is_similar_to a b wt' dt' pnt' pft' divt' sdt' ft' tt' st' = Inr True)
       \<and> (PolychromaticBeam_is_similar_to_core a b wt dt pnt pft
            \<longrightarrow> PolychromaticBeam_is_similar_to_core a b wt' dt' pnt' pft')
       \<and> (PolychromaticBeam_is_similar_to a b dt pnt pft divt sdt ft tt st
            \<longrightarrow> PolychromaticBeam_is_similar_to a b dt' pnt' pft' divt' sdt' ft' tt' st')"
proof -
  have core: "Beam_is_similar_to_core a b wt dt pnt pft = Inr True
            \<longrightarrow> Beam_is_similar_to_core a b wt' dt' pnt' pft' = Inr True"
    using Beam_is_similar_to_core_mono [OF assms(1-4)] by blast
  have ext: "Beam_is_similar_to a b wt dt pnt pft divt sdt ft tt st = Inr True
            \<longrightarrow> Beam_is_similar_to a b wt' dt' pnt' pft' divt' sdt' ft' tt' st' = Inr True"
    using Beam_is_similar_to_mono [OF assms] by blast
  have pcore: "PolychromaticBeam_is_similar_to_core a b wt dt pnt pft
            \<longrightarrow> PolychromaticBeam_is_similar_to_core a b wt' dt' pnt' pft'"
    unfolding PolychromaticBeam_is_similar_to_core_def
    using PolychromaticBeam_is_similar_to_mono [OF assms(2-4) order_refl order_refl order_refl]
    by blast
  have pext: "PolychromaticBeam_is_similar_to a b dt pnt pft divt sdt ft tt st
            \<longrightarrow> PolychromaticBeam_is_similar_to a b dt' pnt' pft' divt' sdt' ft' tt' st'"
    using PolychromaticBeam_is_similar_to_mono [OF assms(2-4) assms(7-9)] by blast
  from core ext pcore pext show ?thesis by simp
qed

theorem is_similar_to_monotone_witness:
  "(0 :: real) \<le> 1 / 1000000
   \<and> Beam_is_similar_to_core mono_example mono_example 0 0 0 0 = Inr True
   \<and> Beam_is_similar_to_core mono_example mono_example
       (1 / 1000000) (1 / 1000000) (1 / 1000000) (1 / 1000000) = Inr True
   \<and> Beam_is_similar_to mono_example mono_example 0 0 0 0 0 0 0 0 0 = Inr True
   \<and> Beam_is_similar_to mono_example mono_example
       (1 / 1000000) (1 / 1000000) (1 / 1000000) (1 / 1000000) (1 / 1000000)
       (1 / 1000000) (1 / 1000000) (1 / 1000000) (1 / 1000000) = Inr True
   \<and> PolychromaticBeam_is_similar_to_core poly_example poly_example 0 0 0 0
   \<and> PolychromaticBeam_is_similar_to_core poly_example poly_example
       (1 / 1000000) (1 / 1000000) (1 / 1000000) (1 / 1000000)
   \<and> PolychromaticBeam_is_similar_to poly_example poly_example 0 0 0 0 0 0 0 0
   \<and> PolychromaticBeam_is_similar_to poly_example poly_example
       (1 / 1000000) (1 / 1000000) (1 / 1000000) (1 / 1000000) (1 / 1000000)
       (1 / 1000000) (1 / 1000000) (1 / 1000000)"
proof -
  have le: "(0 :: real) \<le> 1 / 1000000" by simp
  have dz: "angle_safe (vec3 0 0 1) (vec3 0 0 1) = 0"
    and dy: "angle_safe (vec3 0 1 0) (vec3 0 1 0) = 0"
    by (simp_all add: angle_safe_self)
  have c0: "Beam_is_similar_to_core mono_example mono_example 0 0 0 0 = Inr True"
    by (simp add: Beam_is_similar_to_core_def get_num_scan_points_def mono_example_def
        get_sample_to_source_direction_def get_wavelength_def get_polarization_normal_def
        get_polarization_fraction_def get_probe_def dz dy)
  have e0: "Beam_is_similar_to mono_example mono_example 0 0 0 0 0 0 0 0 0 = Inr True"
    by (simp add: Beam_is_similar_to_def get_num_scan_points_def mono_example_def
        get_sample_to_source_direction_def get_wavelength_def get_polarization_normal_def
        get_polarization_fraction_def get_divergence_def get_sigma_divergence_def
        get_flux_def get_transmission_def get_sample_to_source_distance_def dz dy)
  have p0: "PolychromaticBeam_is_similar_to poly_example poly_example 0 0 0 0 0 0 0 0"
    by (simp add: PolychromaticBeam_is_similar_to_def poly_example_def
        get_sample_to_source_direction_def get_polarization_normal_def
        get_polarization_fraction_def get_flux_def get_transmission_def
        get_sample_to_source_distance_def get_probe_def dz dy)
  have q0: "PolychromaticBeam_is_similar_to_core poly_example poly_example 0 0 0 0"
    unfolding PolychromaticBeam_is_similar_to_core_def
    using PolychromaticBeam_is_similar_to_mono [OF order_refl order_refl order_refl le le le p0]
    by simp
  from is_similar_to_monotone [OF le le le le le le le le le, of mono_example mono_example]
    c0 e0
  have m: "Beam_is_similar_to_core mono_example mono_example
       (1 / 1000000) (1 / 1000000) (1 / 1000000) (1 / 1000000) = Inr True"
    "Beam_is_similar_to mono_example mono_example
       (1 / 1000000) (1 / 1000000) (1 / 1000000) (1 / 1000000) (1 / 1000000)
       (1 / 1000000) (1 / 1000000) (1 / 1000000) (1 / 1000000) = Inr True"
    by blast+
  from is_similar_to_monotone [OF le le le le le le le le le, of poly_example poly_example]
    p0 q0
  have p: "PolychromaticBeam_is_similar_to_core poly_example poly_example
       (1 / 1000000) (1 / 1000000) (1 / 1000000) (1 / 1000000)"
    "PolychromaticBeam_is_similar_to poly_example poly_example
       (1 / 1000000) (1 / 1000000) (1 / 1000000) (1 / 1000000) (1 / 1000000)
       (1 / 1000000) (1 / 1000000) (1 / 1000000)"
    by blast+
  from le c0 e0 p0 q0 m p show ?thesis by blast
qed

end
